theory Spec2Isabelle
  imports Complex_Main "HOL-Library.Signed_Division" "HOL-Library.Multiset"
begin

section \<open>Tensors, operators and kernel loops\<close>

text \<open>
  A tensor is its shape and the cells of its buffer, in row-major order. The operators
  below read the buffer of a tensor of \<open>T\<close> either as cells of \<open>T\<close> or, where they copy
  raw memory, as bytes (\<open>itemsize\<close> bytes for each element).
\<close>

record 'a tensor =
  dims :: "nat list"
  data :: "'a list"

definition ndim :: "'a tensor \<Rightarrow> nat" where
  "ndim t = length (dims t)"

definition tensor_size :: "'a tensor \<Rightarrow> nat" where
  "tensor_size t = prod_list (dims t)"

definition size_from_dim :: "nat \<Rightarrow> 'a tensor \<Rightarrow> nat" where
  "size_from_dim k t = prod_list (drop k (dims t))"

definition size_to_dim :: "nat \<Rightarrow> 'a tensor \<Rightarrow> nat" where
  "size_to_dim k t = prod_list (take k (dims t))"

definition size_between_dim :: "nat \<Rightarrow> nat \<Rightarrow> 'a tensor \<Rightarrow> nat" where
  "size_between_dim k l t = prod_list (take (l - Suc k) (drop (Suc k) (dims t)))"

text \<open>
  A tensor of the framework owns a buffer with one cell for each element (\<open>itemsize\<close>
  cells where the buffer is read as bytes).
\<close>

definition wf_tensor :: "'a tensor \<Rightarrow> bool" where
  "wf_tensor t \<longleftrightarrow> length (data t) = tensor_size t"


text \<open>
  How a call of an operator ends: \<open>RunOnDevice\<close> returns \<open>true\<close>, or a failed
  \<open>CAFFE_ENFORCE\<close> check throws \<open>EnforceNotMet\<close>, or the host code divides an integer
  by zero, or a kernel it launched leaves the defined behaviour of the device (an access
  outside of a buffer, a failed \<open>HIP_KERNEL_ASSERT\<close>).
\<close>

datatype status = Success | EnforceNotMet | DivisionByZero | DeviceFault

text \<open>
  What an operator can change: its output tensors, and the device stream of its context,
  on which it enqueues kernels. The stream is the list of the kernels launched on it.
\<close>

record 'o op_state =
  outputs :: 'o
  stream :: "string list"

definition launch :: "string \<Rightarrow> 'o op_state \<Rightarrow> 'o op_state" where
  "launch k st = st\<lparr>stream := stream st @ [k]\<rparr>"

text \<open>
  Modelled from the spec: \<open>Tensor::Resize\<close> followed by \<open>mutable_data\<close>, of the
  framework's tensor class, which is not among the sources. The tensor takes the given
  shape and owns a buffer with one cell for each element. What the cells hold before
  the operator writes them is not specified: the function \<open>fresh\<close> stands for it.
\<close>

definition Resize :: "(nat \<Rightarrow> 'a) \<Rightarrow> nat list \<Rightarrow> 'a tensor" where
  "Resize fresh ds = \<lparr>dims = ds, data = map fresh [0..<prod_list ds]\<rparr>"

definition Resize_raw :: "(nat \<Rightarrow> 'a) \<Rightarrow> nat \<Rightarrow> nat list \<Rightarrow> 'a tensor" where
  "Resize_raw fresh itemsize ds = \<lparr>dims = ds, data = map fresh [0..<prod_list ds * itemsize]\<rparr>"

text \<open>
  Modelled from the spec: \<open>Tensor::canonical_axis_index\<close> of the framework's tensor
  class, which is not among the sources. The spec speaks of the canonical axis of an
  operator: an axis argument \<open>a\<close> with \<open>-ndim \<le> a < ndim\<close> stands for the dimension
  \<open>a\<close>, or \<open>a + ndim\<close> when it is negative; any other argument fails a check.
\<close>

definition canonical_axis_index :: "int \<Rightarrow> 'a tensor \<Rightarrow> nat option" where
  "canonical_axis_index a t =
     (if - int (ndim t) \<le> a \<and> a < int (ndim t)
      then Some (nat (if a < 0 then a + int (ndim t) else a)) else None)"

text \<open>
  Modelled from the spec: \<open>Tensor::dim32\<close> of the framework's tensor class, which is
  not among the sources: the dimension as an \<open>int\<close>, behind the checks that the tensor
  has this dimension and that it is below the largest \<open>int\<close>.
\<close>

definition dim32 :: "nat \<Rightarrow> 'a tensor \<Rightarrow> int option" where
  "dim32 i t =
     (if i < ndim t \<and> int (dims t ! i) < 2 ^ 31 - 1 then Some (int (dims t ! i)) else None)"

text \<open>
  The conversion of a 64-bit size to the C type \<open>int\<close> wraps around modulo \<open>2^32\<close>.
\<close>

definition to_int32 :: "int \<Rightarrow> int" where
  "to_int32 n = (n + 2 ^ 31) mod 2 ^ 32 - 2 ^ 31"

text \<open>
  Modelled from the spec: the macro \<open>HIP_1D_KERNEL_LOOP(i, n)\<close> of
  caffe2/core/common\_hip.h, which is not among the sources. By the spec a kernel is a
  parallel-for on one device stream: the body runs once for each index \<open>0 \<le> i < n\<close>.
  The model runs the indices in increasing order; the kernels that use it write, at each
  index, only cells that no other index reads or writes.
\<close>

definition HIP_1D_KERNEL_LOOP :: "int \<Rightarrow> (nat \<Rightarrow> 's \<Rightarrow> 's) \<Rightarrow> 's \<Rightarrow> 's" where
  "HIP_1D_KERNEL_LOOP n body s = fold body [0..<nat n] s"

section \<open>BooleanMask (caffe2/operators/boolean\_mask\_ops\_hip.cc)\<close>

text \<open>
  The kernel copies \<open>numBytes\<close> bytes for each selected index: one block for each output
  slice, one thread for each byte of it.
\<close>

definition BooleanMaskCopyKernel ::
  "nat \<Rightarrow> nat \<Rightarrow> int list \<Rightarrow> 'a list \<Rightarrow> 'a list \<Rightarrow> 'a list" where
  "BooleanMaskCopyKernel numOfOutput numBytes indices src dest =
     fold (\<lambda>i dest.
        let srcBase = nat (indices ! i) * numBytes;
            destBase = i * numBytes
        in fold (\<lambda>j dest. dest[destBase + j := src ! (srcBase + j)]) [0..<numBytes] dest)
      [0..<numOfOutput] dest"

text \<open>
  \<open>hipcub::DeviceSelect::Flagged\<close> of the hipCUB library: of the first \<open>n\<close> items it
  keeps those whose flag is set, in their order, and reports how many they are.
\<close>

definition DeviceSelect_Flagged :: "'i list \<Rightarrow> bool list \<Rightarrow> nat \<Rightarrow> 'i list \<times> nat" where
  "DeviceSelect_Flagged items flags n =
     (let selected = map fst (filter snd (zip (take n items) (take n flags)))
      in (selected, length selected))"

text \<open>
  The outputs of the operator: \<open>Output(0)\<close>, and \<open>Output(1)\<close> when the operator was
  declared with two outputs (\<open>OutputSize() == 2\<close>). The source tensor is read as raw
  bytes, \<open>itemsize\<close> is \<open>src.meta().itemsize()\<close>.
\<close>


type_synonym 'a BooleanMask_outputs = "'a tensor \<times> int tensor option"

definition BooleanMask_RunOnDevice ::
  "(nat \<Rightarrow> 'a) \<Rightarrow> (nat \<Rightarrow> int) \<Rightarrow> nat \<Rightarrow> 'a tensor \<Rightarrow> bool tensor
     \<Rightarrow> 'a BooleanMask_outputs op_state \<Rightarrow> status \<times> 'a BooleanMask_outputs op_state" where
  "BooleanMask_RunOnDevice fresh fresh_idx itemsize src mask_in st =
    (if \<not> 1 \<le> ndim src then (EnforceNotMet, st)
     else if ndim mask_in \<noteq> 1 then (EnforceNotMet, st)
     else if dims src ! 0 \<noteq> dims mask_in ! 0 then (EnforceNotMet, st)
     else
       let maskData = data mask_in;
           outerSize = dims mask_in ! 0;
           (indicesData, numOfOutput) =
              DeviceSelect_Flagged (map int [0..<outerSize]) maskData outerSize;
           indices = \<lparr>dims = [numOfOutput], data = indicesData\<rparr>;
           dest = Resize_raw fresh itemsize ((dims src)[0 := numOfOutput]);
           indicesOut = (case snd (outputs st) of
                           None \<Rightarrow> None
                         | Some _ \<Rightarrow> Some (Resize fresh_idx [numOfOutput]));
           st1 = st\<lparr>outputs := (dest, indicesOut)\<rparr>
       in if 0 < numOfOutput then
            let destData = BooleanMaskCopyKernel numOfOutput (size_from_dim 1 src * itemsize)
                             indicesData (data src) (data dest);
                st2 = launch ''BooleanMaskCopyKernel'' st1;
                indicesOut' = (case indicesOut of None \<Rightarrow> None | Some _ \<Rightarrow> Some indices)
            in (Success, st2\<lparr>outputs := (dest\<lparr>data := destData\<rparr>, indicesOut')\<rparr>)
          else (Success, st1))"

text \<open>
  A run of the operator used below to exercise its properties: three slices of two
  bytes each, of which the mask keeps the first and the last.
\<close>

abbreviation BooleanMask_example_src :: "nat tensor" where
  "BooleanMask_example_src \<equiv> \<lparr>dims = [3, 1], data = [1, 2, 3, 4, 5, 6]\<rparr>"


abbreviation BooleanMask_example_state :: "nat BooleanMask_outputs op_state" where
  "BooleanMask_example_state \<equiv>
     \<lparr>outputs = (\<lparr>dims = [], data = []\<rparr>, Some \<lparr>dims = [], data = []\<rparr>), stream = []\<rparr>"

section \<open>Floating-point values\<close>

text \<open>
  The operators below whose arithmetic can leave the real numbers keep in a cell of type
  \<open>float\<close> either a real number or \<open>None\<close>, which stands for the values of \<open>float\<close>
  that are no real numbers: the infinities and NaN. The operations are those of the real
  numbers, without rounding. A division by zero gives an infinity or NaN, the square root
  of a negative number gives NaN, and an operation on NaN gives NaN. In the kernels below
  a divisor or an operand that is no real number is always NaN.
\<close>

definition float_add :: "real option \<Rightarrow> real option \<Rightarrow> real option" where
  "float_add a b = (case (a, b) of (Some x, Some y) \<Rightarrow> Some (x + y) | _ \<Rightarrow> None)"

definition float_sub :: "real option \<Rightarrow> real option \<Rightarrow> real option" where
  "float_sub a b = (case (a, b) of (Some x, Some y) \<Rightarrow> Some (x - y) | _ \<Rightarrow> None)"

definition float_mul :: "real option \<Rightarrow> real option \<Rightarrow> real option" where
  "float_mul a b = (case (a, b) of (Some x, Some y) \<Rightarrow> Some (x * y) | _ \<Rightarrow> None)"

definition float_div :: "real option \<Rightarrow> real option \<Rightarrow> real option" where
  "float_div a b =
     (case (a, b) of (Some x, Some y) \<Rightarrow> if y = 0 then None else Some (x / y) | _ \<Rightarrow> None)"

definition float_sqrt :: "real option \<Rightarrow> real option" where
  "float_sqrt a = (case a of Some x \<Rightarrow> if x < 0 then None else Some (sqrt x) | None \<Rightarrow> None)"

section \<open>Device discovery: \<open>NumHipDevices\<close> (caffe2/core/common\_hip.cc)\<close>

text \<open>
  The error codes of the HIP runtime that \<open>NumHipDevices\<close> distinguishes; every other
  code of \<open>hipError_t\<close> is \<open>hipErrorOther\<close> with its number.
\<close>

datatype hipError_t =
    hipSuccess
  | hipErrorNoDevice
  | hipErrorInsufficientDriver
  | hipErrorInitializationError
  | hipErrorUnknown
  | hipErrorMemoryAllocation
  | hipErrorOther nat

datatype log_line = CERR_DEBUG | LOG_WARNING | LOG_ERROR | LOG_FATAL

text \<open>
  A call either returns a value or ends the process in \<open>LOG(FATAL)\<close>.
\<close>

datatype 'a outcome = Returned 'a | Fatal

text \<open>
  The function's two static variables (\<open>first\<close>, \<open>count\<close>), the lines it has logged, and
  the number of calls it has made to \<open>hipGetDeviceCount\<close>.
\<close>

record hip_state =
  first :: bool
  count :: int
  logged :: "log_line list"
  queries :: nat

definition hip_init :: hip_state where
  "hip_init = \<lparr>first = True, count = -1, logged = [], queries = 0\<rparr>"

text \<open>
  \<open>NumHipDevices asan debug rt s\<close>: \<open>asan\<close> is the compile-time switch
  \<open>CAFFE2_ASAN_ENABLED\<close>, \<open>debug\<close> says whether the environment variable
  \<open>CAFFE2_DEBUG_HIP_INIT_ORDER\<close> is set, and \<open>rt = (err, c)\<close> is what the runtime
  answers if it is asked: the code \<open>hipGetDeviceCount(&count)\<close> returns and the value
  \<open>count\<close> holds after the call.
\<close>

definition NumHipDevices ::
  "bool \<Rightarrow> bool \<Rightarrow> hipError_t \<times> int \<Rightarrow> hip_state \<Rightarrow> int outcome \<times> hip_state" where
  "NumHipDevices asan debug rt s0 =
    (let s1 = (if debug \<and> first s0
               then s0\<lparr>first := False, logged := logged s0 @ [CERR_DEBUG]\<rparr> else s0)
     in if count s1 < 0 then
          (let err = fst rt;
               s2 = s1\<lparr>count := snd rt, queries := Suc (queries s1)\<rparr>
           in case err of
                hipSuccess \<Rightarrow> (Returned (count s2), s2)
              | hipErrorNoDevice \<Rightarrow> (Returned 0, s2\<lparr>count := 0\<rparr>)
              | hipErrorInsufficientDriver \<Rightarrow>
                  (Returned 0, s2\<lparr>count := 0, logged := logged s2 @ [LOG_WARNING]\<rparr>)
              | hipErrorInitializationError \<Rightarrow>
                  (Returned 0, s2\<lparr>count := 0, logged := logged s2 @ [LOG_WARNING]\<rparr>)
              | hipErrorUnknown \<Rightarrow>
                  (Returned 0, s2\<lparr>count := 0, logged := logged s2 @ [LOG_ERROR]\<rparr>)
              | hipErrorMemoryAllocation \<Rightarrow>
                  (if asan
                   then (Returned 0, s2\<lparr>count := 0, logged := logged s2 @ [LOG_ERROR]\<rparr>)
                   else (Fatal, s2\<lparr>logged := logged s2 @ [LOG_FATAL]\<rparr>))
              | hipErrorOther k \<Rightarrow> (Fatal, s2\<lparr>logged := logged s2 @ [LOG_FATAL]\<rparr>))
        else (Returned (count s1), s1))"

text \<open>
  The error conditions the specification names as degrading to zero devices.
\<close>

definition graceful_errors :: "hipError_t set" where
  "graceful_errors = {hipErrorNoDevice, hipErrorInsufficientDriver, hipErrorInitializationError}"

text \<open>
  A run of the process: the calls made to \<open>NumHipDevices\<close> one after the other, each
  with the environment and the runtime's answer of that moment. A fatal log ends the run.
\<close>

fun NumHipDevices_calls ::
  "bool \<Rightarrow> (bool \<times> hipError_t \<times> int) list \<Rightarrow> hip_state \<Rightarrow> int outcome list \<times> hip_state" where
  "NumHipDevices_calls asan [] s = ([], s)"
| "NumHipDevices_calls asan ((debug, rt) # cs) s =
     (case NumHipDevices asan debug rt s of
        (Fatal, s') \<Rightarrow> ([Fatal], s')
      | (Returned n, s') \<Rightarrow>
          (case NumHipDevices_calls asan cs s' of (rs, s'') \<Rightarrow> (Returned n # rs, s'')))"

text \<open>
  What the first call answers, by the runtime's code: the count on success, zero for the
  error codes the function tolerates, and a fatal log otherwise.
\<close>

definition first_answer :: "bool \<Rightarrow> hipError_t \<times> int \<Rightarrow> int outcome" where
  "first_answer asan rt =
     (if fst rt = hipSuccess then Returned (snd rt)
      else if fst rt \<in> graceful_errors \<or> fst rt = hipErrorUnknown
              \<or> (fst rt = hipErrorMemoryAllocation \<and> asan)
      then Returned 0 else Fatal)"

section \<open>SparseToDense (caffe2/operators/sparse\_to\_dense\_op\_hip.cc)\<close>

text \<open>
  The device runs each of the \<open>N\<close> iterations of a kernel loop once, and where the
  iterations add atomically into shared cells it orders the additions as it likes. The
  function \<open>pick\<close> stands for the choices of the device: of the iterations that are
  still to run, \<open>n\<close> of them, the next one is at the position \<open>pick (n - 1) mod n\<close>.
\<close>

primrec run_order :: "(nat \<Rightarrow> nat) \<Rightarrow> nat \<Rightarrow> nat list \<Rightarrow> nat list" where
  "run_order pick 0 pending = []"
| "run_order pick (Suc n) pending =
     (let k = pick n mod Suc n
      in pending ! k # run_order pick n (take k pending @ drop (Suc k) pending))"

text \<open>
  The kernel adds every cell of \<open>vals\<close> into the row of \<open>dst\<close> that the index of its
  slice names, one cell at each index \<open>0 \<le> i < N\<close> of its loop. The variables \<open>idx\<close>
  and \<open>dst_idx\<close> are of type \<open>int\<close>. An addition outside of \<open>dst\<close> is undefined
  behaviour: the kernel then has no result.
\<close>

definition SparseToDenseKernel_body ::
  "nat \<Rightarrow> int list \<Rightarrow> 'a::comm_monoid_add list \<Rightarrow> nat \<Rightarrow> 'a list option \<Rightarrow> 'a list option" where
  "SparseToDenseKernel_body block_nitems indices vals i dst' =
     (case dst' of
        None \<Rightarrow> None
      | Some dst \<Rightarrow>
          let idx = indices ! (i div block_nitems);
              dst_idx = to_int32 (int block_nitems * idx + int (i mod block_nitems))
          in if 0 \<le> dst_idx \<and> nat dst_idx < length dst
             then Some (dst[nat dst_idx := dst ! nat dst_idx + vals ! i])
             else None)"

definition SparseToDenseKernel ::
  "(nat \<Rightarrow> nat) \<Rightarrow> nat \<Rightarrow> nat \<Rightarrow> int list \<Rightarrow> 'a::comm_monoid_add list \<Rightarrow> 'a list
     \<Rightarrow> 'a list option" where
  "SparseToDenseKernel pick N block_nitems indices vals dst =
     fold (SparseToDenseKernel_body block_nitems indices vals) (run_order pick N [0..<N])
       (Some dst)"

text \<open>
  \<open>DoRunWithType2\<close>. The member function \<open>GetOutputFirstDim\<close> is declared in
  sparse\_to\_dense\_op.h, which is not among the sources: its result
  \<open>output_first_dim\<close> is a parameter here.
\<close>

definition SparseToDense_DoRunWithType2 ::
  "(nat \<Rightarrow> 'a) \<Rightarrow> (nat \<Rightarrow> nat) \<Rightarrow> nat \<Rightarrow> int tensor \<Rightarrow> 'a::comm_monoid_add tensor
     \<Rightarrow> 'a tensor op_state \<Rightarrow> status \<times> 'a tensor op_state" where
  "SparseToDense_DoRunWithType2 fresh pick output_first_dim sparse_indices sparse_values st =
    (if ndim sparse_indices \<noteq> 1 then (EnforceNotMet, st)
     else if \<not> 1 \<le> ndim sparse_values then (EnforceNotMet, st)
     else if tensor_size sparse_indices \<noteq> dims sparse_values ! 0 then (EnforceNotMet, st)
     else case dim32 0 sparse_indices of
       None \<Rightarrow> (EnforceNotMet, st)
     | Some sparse_indices_len \<Rightarrow>
         let shape = (dims sparse_values)[0 := output_first_dim];
             output = Resize fresh shape;
             output = output\<lparr>data := replicate (tensor_size output) 0\<rparr>;
             st1 = st\<lparr>outputs := output\<rparr>;
             block_nitems = size_from_dim 1 sparse_values;
             N = block_nitems * nat sparse_indices_len
         in if tensor_size output \<noteq> output_first_dim * block_nitems then (EnforceNotMet, st1)
            else
              case SparseToDenseKernel pick N block_nitems (data sparse_indices)
                     (data sparse_values) (data output) of
                None \<Rightarrow> (DeviceFault, launch ''SparseToDenseKernel'' st1)
              | Some output_data \<Rightarrow>
                  (Success, (launch ''SparseToDenseKernel'' st1)
                              \<lparr>outputs := output\<lparr>data := output_data\<rparr>\<rparr>))"


abbreviation SparseToDense_example_values :: "int tensor" where
  "SparseToDense_example_values \<equiv> \<lparr>dims = [3, 2], data = [1, 2, 3, 4, 5, 6]\<rparr>"

abbreviation SparseToDense_example_state :: "int tensor op_state" where
  "SparseToDense_example_state \<equiv> \<lparr>outputs = \<lparr>dims = [], data = []\<rparr>, stream = []\<rparr>"

section \<open>BooleanUnmask (caffe2/operators/boolean\_unmask\_ops\_hip.cc)\<close>

text \<open>
  \<open>ComputeIndicesKernel\<close>: for each position of the masks, the first mask that is true
  there. The kernel asserts that there is one.
\<close>

definition ComputeIndicesKernel ::
  "int \<Rightarrow> int \<Rightarrow> int list \<Rightarrow> bool list list \<Rightarrow> int list option" where
  "ComputeIndicesKernel numMasks maskSize indices masks =
     HIP_1D_KERNEL_LOOP maskSize
       (\<lambda>i s. case s of
           None \<Rightarrow> None
         | Some indices \<Rightarrow>
             (case find (\<lambda>j. masks ! j ! i) [0..<nat numMasks] of
                Some j \<Rightarrow> Some (indices[i := int j])
              | None \<Rightarrow> None))
       (Some indices)"

text \<open>
  \<open>FillValuesKernel\<close>: the thread of mask \<open>j\<close> walks the positions, and copies the next
  item of its values (\<open>itemSize\<close> bytes) to each position that \<open>indices\<close> gives to \<open>j\<close>.
  It asserts at the end that it has used all of its values. The state of the walk is the
  counter \<open>k\<close> and the destination.
\<close>

definition FillValuesKernel ::
  "int \<Rightarrow> int \<Rightarrow> nat \<Rightarrow> int list \<Rightarrow> 'a list list \<Rightarrow> int list \<Rightarrow> 'a list \<Rightarrow> 'a list option" where
  "FillValuesKernel numMasks maskSize itemSize indices values valueSizes dest =
     HIP_1D_KERNEL_LOOP numMasks
       (\<lambda>j s. case s of
           None \<Rightarrow> None
         | Some dest \<Rightarrow>
             let (k, dest') =
               fold (\<lambda>i (k, dest).
                   if indices ! i = int j
                   then (k + 1,
                         fold (\<lambda>h dest. dest[i * itemSize + h := values ! j ! (nat k * itemSize + h)])
                           [0..<itemSize] dest)
                   else (k, dest))
                 [0..<nat maskSize] (0::int, dest)
             in if valueSizes ! j = k then Some dest' else None)
       (Some dest)"

text \<open>
  The checks of the loop over the inputs: input \<open>2 i\<close> is a mask, input \<open>2 i + 1\<close> holds
  its values.
\<close>

fun BooleanUnmask_checks :: "int \<Rightarrow> (bool tensor \<times> 'a tensor) list \<Rightarrow> bool" where
  "BooleanUnmask_checks maskSize [] = True"
| "BooleanUnmask_checks maskSize ((mask_in, value) # inputs) =
     (if ndim mask_in \<noteq> 1 then False
      else if int (tensor_size mask_in) \<noteq> maskSize then False
      else if ndim value \<noteq> 1 then False
      else BooleanUnmask_checks maskSize inputs)"

text \<open>
  \<open>RunOnDevice\<close>. The operator has an even, positive number of inputs: the pair
  \<open>first_inputs\<close> of \<open>Input(0)\<close> and \<open>Input(1)\<close>, and the pairs \<open>more_inputs\<close> that follow
  it. The
  values are read as raw bytes, \<open>itemsize\<close> is \<open>Input(1).meta().itemsize()\<close>.
\<close>

definition BooleanUnmask_RunOnDevice ::
  "(nat \<Rightarrow> 'a) \<Rightarrow> (nat \<Rightarrow> int) \<Rightarrow> nat \<Rightarrow> bool tensor \<times> 'a tensor
     \<Rightarrow> (bool tensor \<times> 'a tensor) list \<Rightarrow> 'a tensor op_state \<Rightarrow> status \<times> 'a tensor op_state" where
  "BooleanUnmask_RunOnDevice fresh fresh_idx itemsize first_inputs more_inputs st =
    (let maskSize = to_int32 (int (tensor_size (fst first_inputs)));
         numMasks = int (length (first_inputs # more_inputs));
         out = Resize_raw fresh itemsize [nat maskSize];
         st1 = st\<lparr>outputs := out\<rparr>
     in if \<not> BooleanUnmask_checks maskSize (first_inputs # more_inputs)
        then (EnforceNotMet, st1)
        else
          let hostMasks = map (\<lambda>(mask_in, value). data mask_in) (first_inputs # more_inputs);
              hostValues = map (\<lambda>(mask_in, value). data value) (first_inputs # more_inputs);
              hostValueSizes =
                map (\<lambda>(mask_in, value). to_int32 (int (tensor_size value)))
                  (first_inputs # more_inputs);
              indices = data (Resize fresh_idx [nat maskSize]);
              st2 = launch ''ComputeIndicesKernel'' st1
          in case ComputeIndicesKernel numMasks maskSize indices hostMasks of
               None \<Rightarrow> (DeviceFault, st2)
             | Some indicesData \<Rightarrow>
                 let st3 = launch ''FillValuesKernel'' st2
                 in case FillValuesKernel numMasks maskSize itemsize indicesData hostValues
                           hostValueSizes (data out) of
                      None \<Rightarrow> (DeviceFault, st3)
                    | Some dest \<Rightarrow> (Success, st3\<lparr>outputs := out\<lparr>data := dest\<rparr>\<rparr>))"

section \<open>SequenceMask (caffe2/operators/boolean\_mask\_ops\_hip.cc)\<close>

text \<open>
  The mask kernels share their index arithmetic, which is that of the C type \<open>int\<close>
  (\<open>sdiv\<close> and \<open>smod\<close> truncate towards zero). With a batch (\<open>B \<ge> 0\<close>) an index is
  split into the batch \<open>i\<close>, the row \<open>j\<close> and the column \<open>k\<close>; without one, into the
  row \<open>i\<close> and the column \<open>j\<close>. A kernel writes \<open>fill_val\<close> where its condition
  \<open>masked\<close> holds and copies the input elsewhere.
\<close>

definition maskKernel_batched ::
  "int \<Rightarrow> int \<Rightarrow> int \<Rightarrow> (int \<Rightarrow> int \<Rightarrow> int \<Rightarrow> bool) \<Rightarrow> 'a list \<Rightarrow> 'a \<Rightarrow> 'a list \<Rightarrow> 'a list" where
  "maskKernel_batched N M B masked inp fill_val out =
     HIP_1D_KERNEL_LOOP (B * N * M)
       (\<lambda>index out.
          let k = int index smod M;
              j = (int index - k) sdiv M smod N;
              i = (int index - M * j - k) sdiv (N * M);
              ind = N * M * i + M * j + k
          in out[nat ind := (if masked i j k then fill_val else inp ! nat ind)])
       out"

definition maskKernel_plain ::
  "int \<Rightarrow> int \<Rightarrow> (int \<Rightarrow> int \<Rightarrow> bool) \<Rightarrow> 'a list \<Rightarrow> 'a \<Rightarrow> 'a list \<Rightarrow> 'a list" where
  "maskKernel_plain N M masked inp fill_val out =
     HIP_1D_KERNEL_LOOP (N * M)
       (\<lambda>index out.
          let i = int index sdiv M;
              j = int index smod M
          in out[index := (if masked i j then fill_val else inp ! index)])
       out"

definition sequenceMaskKernel ::
  "int \<Rightarrow> int \<Rightarrow> int \<Rightarrow> 'a list \<Rightarrow> int list \<Rightarrow> 'a \<Rightarrow> 'a list \<Rightarrow> 'a list" where
  "sequenceMaskKernel N M B inp seq_lengths fill_val out =
     (if B \<ge> 0
      then maskKernel_batched N M B (\<lambda>i j k. k \<ge> seq_lengths ! nat j) inp fill_val out
      else maskKernel_plain N M (\<lambda>i j. j \<ge> seq_lengths ! nat i) inp fill_val out)"

definition repeatedSequenceMaskKernel ::
  "int \<Rightarrow> int \<Rightarrow> int \<Rightarrow> 'a list \<Rightarrow> int list \<Rightarrow> 'a \<Rightarrow> 'a list \<Rightarrow> 'a list" where
  "repeatedSequenceMaskKernel N M D inp seq_lengths fill_val out =
     HIP_1D_KERNEL_LOOP (N * M * D)
       (\<lambda>index out.
          let i = int index sdiv (D * M);
              j = (int index sdiv D) smod M
          in out[index := (if j \<ge> seq_lengths ! nat i then fill_val else inp ! index)])
       out"

definition windowMaskKernel ::
  "int \<Rightarrow> int \<Rightarrow> int \<Rightarrow> 'a list \<Rightarrow> int list \<Rightarrow> int \<Rightarrow> 'a \<Rightarrow> 'a list \<Rightarrow> 'a list" where
  "windowMaskKernel N M B inp window_centers radius fill_val out =
     (if B \<ge> 0
      then maskKernel_batched N M B
             (\<lambda>i j k. k < window_centers ! nat j - radius \<or> k > window_centers ! nat j + radius)
             inp fill_val out
      else maskKernel_plain N M
             (\<lambda>i j. j < window_centers ! nat i - radius \<or> j > window_centers ! nat i + radius)
             inp fill_val out)"

definition upperMaskKernel :: "int \<Rightarrow> int \<Rightarrow> int \<Rightarrow> 'a list \<Rightarrow> 'a \<Rightarrow> 'a list \<Rightarrow> 'a list" where
  "upperMaskKernel N M B inp fill_val out =
     (if B \<ge> 0 then maskKernel_batched N M B (\<lambda>i j k. k > j) inp fill_val out
      else maskKernel_plain N M (\<lambda>i j. j > i) inp fill_val out)"

definition lowerMaskKernel :: "int \<Rightarrow> int \<Rightarrow> int \<Rightarrow> 'a list \<Rightarrow> 'a \<Rightarrow> 'a list \<Rightarrow> 'a list" where
  "lowerMaskKernel N M B inp fill_val out =
     (if B \<ge> 0 then maskKernel_batched N M B (\<lambda>i j k. k < j) inp fill_val out
      else maskKernel_plain N M (\<lambda>i j. j < i) inp fill_val out)"

definition upperDiagMaskKernel :: "int \<Rightarrow> int \<Rightarrow> int \<Rightarrow> 'a list \<Rightarrow> 'a \<Rightarrow> 'a list \<Rightarrow> 'a list" where
  "upperDiagMaskKernel N M B inp fill_val out =
     (if B \<ge> 0 then maskKernel_batched N M B (\<lambda>i j k. k \<ge> j) inp fill_val out
      else maskKernel_plain N M (\<lambda>i j. j \<ge> i) inp fill_val out)"

definition lowerDiagMaskKernel :: "int \<Rightarrow> int \<Rightarrow> int \<Rightarrow> 'a list \<Rightarrow> 'a \<Rightarrow> 'a list \<Rightarrow> 'a list" where
  "lowerDiagMaskKernel N M B inp fill_val out =
     (if B \<ge> 0 then maskKernel_batched N M B (\<lambda>i j k. k \<le> j) inp fill_val out
      else maskKernel_plain N M (\<lambda>i j. j \<le> i) inp fill_val out)"

text \<open>
  The arguments of the operator: the members \<open>mode_\<close>, \<open>axis_\<close>, \<open>radius_\<close>, \<open>grad_\<close>
  and \<open>fill_val_\<close>, and the members \<open>batch_\<close> and \<open>repeat_from_\<close>, which are present
  when the operator has the argument \<open>batch\<close>, respectively \<open>repeat_from_axis\<close>.
\<close>

record SequenceMask_args =
  mode_arg :: string
  axis_arg :: int
  radius_arg :: int
  grad_arg :: bool
  fill_val_arg :: real
  batch_arg :: "int option"
  repeat_from_arg :: "int option"

definition SequenceMask_modes :: "string set" where
  "SequenceMask_modes =
     {''sequence'', ''window'', ''upper'', ''lower'', ''upperdiag'', ''lowerdiag''}"

text \<open>
  \<open>DoRunWithType\<close>, for the element type \<open>float\<close>. \<open>Input(1)\<close> holds the sequence
  lengths or the window centers; the other modes do not read it.
\<close>

definition SequenceMask_DoRunWithType ::
  "SequenceMask_args \<Rightarrow> (nat \<Rightarrow> real) \<Rightarrow> real tensor \<Rightarrow> int tensor
     \<Rightarrow> real tensor op_state \<Rightarrow> status \<times> real tensor op_state" where
  "SequenceMask_DoRunWithType args fresh input second_input st =
    (let output = Resize fresh (dims input);
         st1 = st\<lparr>outputs := output\<rparr>;
         run = (\<lambda>name output_data.
                  (Success, (launch name st1)\<lparr>outputs := output\<lparr>data := output_data\<rparr>\<rparr>))
     in case canonical_axis_index (axis_arg args) input of
       None \<Rightarrow> (EnforceNotMet, st1)
     | Some canonical_axis \<Rightarrow>
     case (case batch_arg args of
             None \<Rightarrow> Some (- 1)
           | Some b \<Rightarrow> map_option int (canonical_axis_index b input)) of
       None \<Rightarrow> (EnforceNotMet, st1)
     | Some canonical_batch \<Rightarrow>
       if canonical_batch \<ge> 0 \<and> \<not> canonical_batch < int canonical_axis
       then (EnforceNotMet, st1)
       else
         let left = to_int32 (int
               (if canonical_batch \<ge> 0
                then size_between_dim (nat canonical_batch) canonical_axis input
                else size_to_dim canonical_axis input));
             right = to_int32 (int (size_from_dim canonical_axis input));
             batch_dim =
               (if canonical_batch \<ge> 0
                then to_int32 (int (size_to_dim (nat canonical_batch) input
                                     * dims input ! nat canonical_batch))
                else - 1);
             fill_val = (if grad_arg args then 0 else fill_val_arg args)
         in if mode_arg args = ''sequence'' then
              (case repeat_from_arg args of
                 Some repeat_from \<Rightarrow>
                   (case canonical_axis_index repeat_from input of
                      None \<Rightarrow> (EnforceNotMet, st1)
                    | Some canonical_repeat_from \<Rightarrow>
                        let repeated_dims = to_int32 (int (size_from_dim canonical_repeat_from input))
                        in if repeated_dims = 0 then (DivisionByZero, st1)
                           else
                             let masked_dims = right sdiv repeated_dims
                             in run ''repeatedSequenceMaskKernel''
                                  (repeatedSequenceMaskKernel left masked_dims repeated_dims
                                     (data input) (data second_input) fill_val (data output)))
               | None \<Rightarrow>
                   run ''sequenceMaskKernel''
                     (sequenceMaskKernel left right batch_dim (data input) (data second_input)
                        fill_val (data output)))
            else if mode_arg args = ''window'' then
              run ''windowMaskKernel''
                (windowMaskKernel left right batch_dim (data input) (data second_input)
                   (radius_arg args) fill_val (data output))
            else if mode_arg args = ''upper'' then
              run ''upperMaskKernel''
                (upperMaskKernel left right batch_dim (data input) fill_val (data output))
            else if mode_arg args = ''lower'' then
              run ''lowerMaskKernel''
                (lowerMaskKernel left right batch_dim (data input) fill_val (data output))
            else if mode_arg args = ''upperdiag'' then
              run ''upperDiagMaskKernel''
                (upperDiagMaskKernel left right batch_dim (data input) fill_val (data output))
            else if mode_arg args = ''lowerdiag'' then
              run ''lowerDiagMaskKernel''
                (lowerDiagMaskKernel left right batch_dim (data input) fill_val (data output))
            else (EnforceNotMet, st1))"

text \<open>
  A run of the operator used below to exercise its properties: one row of four columns,
  which the argument \<open>repeat_from_axis\<close> splits into two blocks of two.
\<close>

abbreviation SequenceMask_example_args :: SequenceMask_args where
  "SequenceMask_example_args \<equiv>
     \<lparr>mode_arg = ''sequence'', axis_arg = 1, radius_arg = 0, grad_arg = False,
      fill_val_arg = 0, batch_arg = None, repeat_from_arg = Some 2\<rparr>"

abbreviation SequenceMask_example_input :: "real tensor" where
  "SequenceMask_example_input \<equiv> \<lparr>dims = [1, 2, 2], data = [10, 20, 30, 40]\<rparr>"

abbreviation SequenceMask_example_state :: "real tensor op_state" where
  "SequenceMask_example_state \<equiv> \<lparr>outputs = \<lparr>dims = [], data = []\<rparr>, stream = []\<rparr>"

section \<open>Adagrad (caffe2/sgd/adagrad\_op\_hip.cc)\<close>

text \<open>
  The dense update. The kernel reads \<open>w\<close>, \<open>g\<close>, \<open>h\<close> and \<open>lr\<close>, which hold real
  numbers, and writes the new parameters \<open>nw\<close> and the new moments \<open>nh\<close>; at index \<open>i\<close>
  it touches the cells \<open>i\<close> only. The new parameter is no real number when the new
  moment is negative or the divisor \<open>sqrtf(hi) + epsilon\<close> is zero.
\<close>

definition AdagradUpdate ::
  "int \<Rightarrow> real list \<Rightarrow> real list \<Rightarrow> real list \<Rightarrow> real \<Rightarrow> real \<Rightarrow> real list
     \<Rightarrow> real option list \<times> real option list \<Rightarrow> real option list \<times> real option list" where
  "AdagradUpdate N w g h epsilon decay lr =
     HIP_1D_KERNEL_LOOP N
       (\<lambda>i (nw, nh).
          let gi = g ! i;
              hi = decay * h ! i + gi * gi;
              nh = nh[i := Some hi]
          in (nw[i := float_add (Some (w ! i))
                        (float_div (Some (lr ! 0 * gi))
                           (float_add (float_sqrt (Some hi)) (Some epsilon)))],
              nh))"

text \<open>
  \<open>adagrad_update<HIPContext>\<close> launches the kernel on the stream of the context; the
  state holds the buffers \<open>nw\<close> and \<open>nh\<close>.
\<close>

definition adagrad_update ::
  "int \<Rightarrow> real list \<Rightarrow> real list \<Rightarrow> real list \<Rightarrow> real \<Rightarrow> real \<Rightarrow> real list
     \<Rightarrow> (real option list \<times> real option list) op_state
     \<Rightarrow> (real option list \<times> real option list) op_state" where
  "adagrad_update N w g h epsilon decay lr st =
     (launch ''AdagradUpdate'' st)
       \<lparr>outputs := AdagradUpdate N w g h epsilon decay lr (outputs st)\<rparr>"

text \<open>
  The constructor of \<open>HIPSparseAdagradOp\<close>: the arguments \<open>epsilon\<close> and \<open>decay\<close> of the
  operator definition are optional, with the defaults \<open>1e-5\<close> and \<open>1\<close>. The constructed
  operator has the member \<open>epsilon_\<close>; a failed check throws.
\<close>

definition HIPSparseAdagradOp :: "real option \<Rightarrow> real option \<Rightarrow> status + real" where
  "HIPSparseAdagradOp epsilon_arg decay_arg =
     (let epsilon = (case epsilon_arg of None \<Rightarrow> 1 / 100000 | Some e \<Rightarrow> e);
          decay = (case decay_arg of None \<Rightarrow> 1 | Some d \<Rightarrow> d)
      in if decay \<noteq> 1 then Inl EnforceNotMet else Inr epsilon)"

text \<open>
  Modelled from the spec: \<open>mixed_add\<close> and \<open>mixed_store\<close> of
  caffe2/utils/mixed\_utils\_hip.h, which is not among the sources. For parameters of
  type \<open>float\<close> they are the addition and the store of a \<open>float\<close>.

  \<open>SparseAdagradKernel\<close> updates the parameters and the moments in place. An index that
  names no row of the parameters leaves the defined behaviour. The cells of the sparse
  operators hold real numbers, and \<open>sqrtf\<close> is the real square root.
\<close>

definition SparseAdagradKernel ::
  "nat \<Rightarrow> nat \<Rightarrow> real \<Rightarrow> int list \<Rightarrow> real list \<Rightarrow> real list
     \<Rightarrow> (real list \<times> real list) option \<Rightarrow> (real list \<times> real list) option" where
  "SparseAdagradKernel N grad_slice_sz epsilon indices grad lr =
     HIP_1D_KERNEL_LOOP (int N)
       (\<lambda>i s. case s of
           None \<Rightarrow> None
         | Some (param, param_mom) \<Rightarrow>
             let LR = lr ! 0;
                 gradIdx = i;
                 index = indices ! (i div grad_slice_sz);
                 paramIdx = index * int grad_slice_sz + int (i mod grad_slice_sz)
             in if 0 \<le> paramIdx \<and> nat paramIdx < length param
                   \<and> nat paramIdx < length param_mom
                then
                  let mom_new = grad ! gradIdx * grad ! gradIdx + param_mom ! nat paramIdx;
                      param_mom = param_mom[nat paramIdx := mom_new];
                      param_new = LR * grad ! gradIdx / (sqrt mom_new + epsilon)
                                    + param ! nat paramIdx
                  in Some (param[nat paramIdx := param_new], param_mom)
                else None)"

text \<open>
  The operator runs in place: its outputs \<open>OUTPUT_PARAM\<close> and \<open>OUTPUT_MOMENT_1\<close> are
  its inputs \<open>PARAM\<close> and \<open>MOMENT_1\<close>, the two tensors of the state.
\<close>

type_synonym Adagrad_outputs = "real tensor \<times> real tensor"

definition HIPSparseAdagrad_DoRunWithType2 ::
  "real \<Rightarrow> int tensor \<Rightarrow> real tensor \<Rightarrow> real tensor
     \<Rightarrow> Adagrad_outputs op_state \<Rightarrow> status \<times> Adagrad_outputs op_state" where
  "HIPSparseAdagrad_DoRunWithType2 epsilon indices grad lr st =
     (let N = tensor_size grad;
          grad_slice_sz = size_from_dim (ndim indices) grad
      in if N = 0 then (Success, st)
         else
           let (param, moment) = outputs st;
               st1 = launch ''SparseAdagradKernel'' st
           in case SparseAdagradKernel N grad_slice_sz epsilon (data indices) (data grad)
                     (data lr) (Some (data param, data moment)) of
                None \<Rightarrow> (DeviceFault, st1)
              | Some (param_data, moment_data) \<Rightarrow>
                  (Success, st1\<lparr>outputs := (param\<lparr>data := param_data\<rparr>,
                                               moment\<lparr>data := moment_data\<rparr>)\<rparr>))"

definition HIPSparseAdagrad_DoRunWithType ::
  "real \<Rightarrow> int tensor \<Rightarrow> real tensor \<Rightarrow> real tensor
     \<Rightarrow> Adagrad_outputs op_state \<Rightarrow> status \<times> Adagrad_outputs op_state" where
  "HIPSparseAdagrad_DoRunWithType epsilon indices grad lr st =
     (let n = tensor_size indices
      in if n = 0 then (Success, st)
         else HIPSparseAdagrad_DoRunWithType2 epsilon indices grad lr st)"

definition HIPSparseAdagrad_RunOnDevice ::
  "real \<Rightarrow> int tensor \<Rightarrow> real tensor \<Rightarrow> real tensor
     \<Rightarrow> Adagrad_outputs op_state \<Rightarrow> status \<times> Adagrad_outputs op_state" where
  "HIPSparseAdagrad_RunOnDevice epsilon indices grad lr st =
     (let (param, moment) = outputs st
      in if tensor_size param \<noteq> tensor_size moment then (EnforceNotMet, st)
         else if tensor_size lr \<noteq> 1 then (EnforceNotMet, st)
         else if size_from_dim 1 param \<noteq> size_from_dim (ndim indices) grad
         then (EnforceNotMet, st)
         else HIPSparseAdagrad_DoRunWithType epsilon indices grad lr st)"

text \<open>
  \<open>RowWiseSparseAdagradKernel\<close>: one block for each row \<open>i\<close> of the gradient. The block
  adds the mean of the squares of the row to the moment of the row's index, and then
  moves the parameters of that index along the row.
\<close>

definition RowWiseSparseAdagradKernel ::
  "int \<Rightarrow> int \<Rightarrow> real \<Rightarrow> int list \<Rightarrow> real list \<Rightarrow> real list
     \<Rightarrow> (real list \<times> real list) option \<Rightarrow> (real list \<times> real list) option" where
  "RowWiseSparseAdagradKernel M N epsilon indices grad lr =
     HIP_1D_KERNEL_LOOP M
       (\<lambda>i s. case s of
           None \<Rightarrow> None
         | Some (param, param_mom) \<Rightarrow>
             let index = indices ! i
             in if 0 \<le> index \<and> nat index < length param_mom
                   \<and> nat index * nat N + nat N \<le> length param
                then
                  let sum_squares =
                        fold (\<lambda>j sum_squares.
                                let x_ij = grad ! (i * nat N + j)
                                in sum_squares + x_ij * x_ij)
                          [0..<nat N] 0;
                      row_sum_squares_avg = sum_squares / real_of_int N;
                      param_mom =
                        param_mom[nat index := param_mom ! nat index + row_sum_squares_avg];
                      step = lr ! 0 / (sqrt (param_mom ! nat index) + epsilon)
                  in Some (fold (\<lambda>j param.
                                   param[nat index * nat N + j :=
                                     param ! (nat index * nat N + j)
                                       + grad ! (i * nat N + j) * step])
                             [0..<nat N] param,
                           param_mom)
                else None)"

definition RowWiseSparseAdagrad_DoRunWithType ::
  "real \<Rightarrow> int tensor \<Rightarrow> real tensor \<Rightarrow> real tensor
     \<Rightarrow> Adagrad_outputs op_state \<Rightarrow> status \<times> Adagrad_outputs op_state" where
  "RowWiseSparseAdagrad_DoRunWithType epsilon indices grad lr st =
     (let N = tensor_size grad
      in if N = 0 then (Success, st)
         else case dim32 0 grad of
           None \<Rightarrow> (EnforceNotMet, st)
         | Some GRAD_M \<Rightarrow>
             let GRAD_N = int N sdiv GRAD_M;
                 (param, moment) = outputs st;
                 st1 = launch ''RowWiseSparseAdagradKernel'' st
             in case RowWiseSparseAdagradKernel GRAD_M (to_int32 GRAD_N) epsilon (data indices)
                       (data grad) (data lr) (Some (data param, data moment)) of
                  None \<Rightarrow> (DeviceFault, st1)
                | Some (param_data, moment_data) \<Rightarrow>
                    (Success, st1\<lparr>outputs := (param\<lparr>data := param_data\<rparr>,
                                                 moment\<lparr>data := moment_data\<rparr>)\<rparr>))"

text \<open>
  A state of the sparse operators used below to exercise their properties: three rows
  of two parameters, with their moments, and a stream that has run a kernel before.
\<close>

abbreviation Adagrad_example_state :: "Adagrad_outputs op_state" where
  "Adagrad_example_state \<equiv>
     \<lparr>outputs = (\<lparr>dims = [3, 2], data = [1, 2, 3, 4, 5, 6]\<rparr>,
                 \<lparr>dims = [3, 2], data = [0, 0, 0, 0, 0, 0]\<rparr>),
      stream = [''earlier'']\<rparr>"

section \<open>RMACRegions (caffe2/operators/rmac\_regions\_op\_hip.cc)\<close>

text \<open>
  The kernels compute with \<open>int\<close>, \<open>float\<close> and \<open>double\<close>. Integers are unbounded here
  (an overflow of \<open>int\<close> is undefined behaviour), with the division and the remainder of
  C. The result of each floating-point operation is the real result rounded by \<open>fl\<close>, a
  parameter: the properties below need of the rounding only that it keeps numbers that
  are not negative so. A \<open>float\<close> becomes an \<open>int\<close> by truncation towards zero.
\<close>

definition float_to_int :: "real \<Rightarrow> int" where
  "float_to_int x = (if 0 \<le> x then \<lfloor>x\<rfloor> else \<lceil>x\<rceil>)"

definition FLT_MAX :: real where
  "FLT_MAX = 340282346638528859811704183484516925440"

text \<open>
  The order on pairs of a step and its value by which the kernel looks for the best step
  (\<open>cub::operator<\<close> of the file): the smaller value, and among equal values the larger
  step.
\<close>

definition kv_less :: "int \<times> real \<Rightarrow> int \<times> real \<Rightarrow> bool" where
  "kv_less kv1 kv2 \<longleftrightarrow> snd kv1 < snd kv2 \<or> (snd kv1 = snd kv2 \<and> fst kv2 < fst kv1)"

definition RMAC_step_value :: "(real \<Rightarrow> real) \<Rightarrow> int \<Rightarrow> int \<Rightarrow> real \<Rightarrow> int \<Rightarrow> real" where
  "RMAC_step_value fl W H overlap key =
     (let minW = min H W;
          diff = max H W - minW;
          b = fl (real_of_int diff / (1 * real_of_int key))
      in \<bar>fl (fl (fl (real_of_int (minW * minW) - fl (real_of_int minW * b))
                   / real_of_int (minW * minW)) - overlap)\<bar>)"

text \<open>
  \<open>NumRMACRegionsKernel\<close>, one block. Each thread scores the steps of its indices and
  the block reduces the scores to the least; the model folds over the steps in order.
  \<open>min_kv\<close> starts with the value \<open>FLT_MAX\<close> and a key that is not initialised,
  \<open>key_init\<close>. The result is the content of \<open>num_rois_data\<close>: the number of regions of an
  image, \<open>Wd\<close> and \<open>Hd\<close>.
\<close>

definition NumRMACRegionsKernel ::
  "(real \<Rightarrow> real) \<Rightarrow> int \<Rightarrow> int \<Rightarrow> int \<Rightarrow> int \<Rightarrow> int \<Rightarrow> real \<Rightarrow> int \<Rightarrow> int list" where
  "NumRMACRegionsKernel fl key_init W H min_step max_step overlap scales =
     (let minW = min H W;
          min_kv = HIP_1D_KERNEL_LOOP (max_step - min_step + 1)
                     (\<lambda>index min_kv.
                        let kv = (min_step + int index,
                                  RMAC_step_value fl W H overlap (min_step + int index))
                        in if kv_less kv min_kv then kv else min_kv)
                     (key_init, FLT_MAX);
          step = fst min_kv;
          Wd = (if W > H then step else 0);
          Hd = (if H > W then step else 0);
          num_rois = HIP_1D_KERNEL_LOOP scales
                       (\<lambda>index num_rois.
                          let l = int index + 1;
                              region_size = 2 * minW sdiv (l + 1)
                          in num_rois + (if region_size > 0 then (l + Wd) * (l + Hd) else 0))
                       0
      in [num_rois, Wd, Hd])"

text \<open>
  The \<open>do ... while\<close> loop of \<open>RMACRegionsKernel\<close> that finds the scale \<open>l\<close> of a region
  and the number of the region within its scale. Its state is \<open>roi_id\<close>, \<open>l\<close> and
  \<open>num_rois_at_scale\<close>; it need not end when \<open>Wd\<close> or \<open>Hd\<close> is negative.
\<close>

partial_function (option) RMAC_scale_loop :: "int \<Rightarrow> int \<Rightarrow> int \<Rightarrow> int \<Rightarrow> int \<Rightarrow> (int \<times> int) option"
  where
  "RMAC_scale_loop Wd Hd roi_id l num_rois_at_scale =
     (if (roi_id - num_rois_at_scale) - (l + 1 + Wd) * (l + 1 + Hd) \<ge> 0
      then RMAC_scale_loop Wd Hd (roi_id - num_rois_at_scale) (l + 1)
             ((l + 1 + Wd) * (l + 1 + Hd))
      else Some (roi_id - num_rois_at_scale, l + 1))"

declare RMAC_scale_loop.simps [code]

text \<open>
  The region of interest of one index of the kernel loop: \<open>roi[0..4]\<close>, that is the image
  of the batch and the corners \<open>x1\<close>, \<open>y1\<close>, \<open>x2\<close>, \<open>y2\<close>.
\<close>

definition RMAC_roi ::
  "(real \<Rightarrow> real) \<Rightarrow> int \<Rightarrow> int \<Rightarrow> int \<Rightarrow> int \<Rightarrow> int \<Rightarrow> nat \<Rightarrow> int list option" where
  "RMAC_roi fl W H num_rois Wd Hd index =
     (let batch_id = int index sdiv num_rois;
          roi_id = int index smod num_rois
      in case RMAC_scale_loop Wd Hd roi_id 0 0 of
           None \<Rightarrow> None
         | Some (roi_id, l) \<Rightarrow>
             let region_size = 2 * min H W sdiv (l + 1);
                 bw = (if l + Wd - 1 > 0
                       then fl (real_of_int (W - region_size) / (1 * real_of_int (l + Wd - 1)))
                       else 0);
                 bh = (if l + Hd - 1 > 0
                       then fl (real_of_int (H - region_size) / (1 * real_of_int (l + Hd - 1)))
                       else 0);
                 i = roi_id sdiv (l + Hd);
                 j = roi_id smod (l + Hd);
                 roi1 = float_to_int (fl (bw * real_of_int i));
                 roi2 = float_to_int (fl (bh * real_of_int j));
                 roi1 = (if roi1 + region_size > W then roi1 - (roi1 + region_size - W)
                         else roi1);
                 roi2 = (if roi2 + region_size > H then roi2 - (roi2 + region_size - H)
                         else roi2);
                 roi3 = roi1 + region_size - 1;
                 roi4 = roi2 + region_size - 1
             in Some [batch_id, roi1, roi2, roi3, roi4])"

text \<open>
  What a block of \<open>num_threads\<close> active threads, the first of which has the index
  \<open>offset\<close>, writes: every thread puts its region into the shared array
  \<open>output_shared\<close>, and after the barrier copies five cells of the shared array, one of
  each stretch of \<open>num_threads\<close> cells, to the output behind \<open>offset * 5\<close>. An \<open>int\<close>
  coordinate is stored as the \<open>float\<close> of the same value.
\<close>

definition RMAC_block_write ::
  "nat \<Rightarrow> nat \<Rightarrow> int list list \<Rightarrow> real list \<Rightarrow> real list \<Rightarrow> real list" where
  "RMAC_block_write offset num_threads rois output_shared output =
     (let output_shared =
            fold (\<lambda>t output_shared.
                    fold (\<lambda>i output_shared.
                            output_shared[t * 5 + i := real_of_int (rois ! t ! i)])
                      [0..<5] output_shared)
              [0..<num_threads] output_shared
      in fold (\<lambda>t output.
                 fold (\<lambda>i output.
                         output[offset * 5 + num_threads * i + t :=
                                  output_shared ! (num_threads * i + t)])
                   [0..<5] output)
           [0..<num_threads] output)"

text \<open>
  \<open>RMACRegionsKernel\<close>, block by block; \<open>block_dim\<close> is the number of threads of a
  block (\<open>CAFFE_HIP_NUM_THREADS\<close>, a constant of the framework that is not among the
  sources), and \<open>output_shared\<close> is what the shared array of a block holds at first. The
  kernel has no result when the loop of one of its indices does not end.
\<close>

definition RMACRegionsKernel ::
  "(real \<Rightarrow> real) \<Rightarrow> nat \<Rightarrow> int \<Rightarrow> int \<Rightarrow> int \<Rightarrow> int list \<Rightarrow> real list \<Rightarrow> real list
     \<Rightarrow> real list option" where
  "RMACRegionsKernel fl block_dim W H N num_rois_data output_shared output =
     (let num_rois = num_rois_data ! 0;
          Wd = num_rois_data ! 1;
          Hd = num_rois_data ! 2
      in fold (\<lambda>block out.
                 case out of
                   None \<Rightarrow> None
                 | Some output \<Rightarrow>
                     let offset = block * block_dim;
                         num_threads = min block_dim (nat N - offset)
                     in case those (map (RMAC_roi fl W H num_rois Wd Hd)
                                      [offset..<offset + num_threads]) of
                          None \<Rightarrow> None
                        | Some rois \<Rightarrow>
                            Some (RMAC_block_write offset num_threads rois output_shared
                                    output))
           [0..<(nat N + block_dim - 1) div block_dim] (Some output))"

text \<open>
  \<open>RunOnDevice\<close>, with the members \<open>overlap_\<close> and \<open>scales_\<close> of the operator. The
  output has a row of five cells for each region of each image of the batch.
\<close>

definition RMACRegions_RunOnDevice ::
  "(real \<Rightarrow> real) \<Rightarrow> int \<Rightarrow> nat \<Rightarrow> real list \<Rightarrow> (nat \<Rightarrow> real) \<Rightarrow> real \<Rightarrow> int \<Rightarrow> 'a tensor
     \<Rightarrow> real tensor op_state \<Rightarrow> status \<times> real tensor op_state" where
  "RMACRegions_RunOnDevice fl key_init block_dim output_shared fresh overlap scales X st =
     (if tensor_size X = 0 then (Success, st)
      else
        case dim32 0 X of None \<Rightarrow> (EnforceNotMet, st) | Some batch_size \<Rightarrow>
        case dim32 2 X of None \<Rightarrow> (EnforceNotMet, st) | Some H \<Rightarrow>
        case dim32 3 X of None \<Rightarrow> (EnforceNotMet, st) | Some W \<Rightarrow>
          let min_step = 1;
              max_step = 6;
              num_rois_data = NumRMACRegionsKernel fl key_init W H min_step max_step overlap scales;
              st1 = launch ''NumRMACRegionsKernel'' st;
              num_rois = num_rois_data ! 0;
              N = batch_size * num_rois;
              output = Resize fresh [nat N, 5];
              st2 = launch ''RMACRegionsKernel'' (st1\<lparr>outputs := output\<rparr>)
          in case RMACRegionsKernel fl block_dim W H N num_rois_data output_shared
                    (data output) of
               None \<Rightarrow> (DeviceFault, st2)
             | Some output_data \<Rightarrow> (Success, st2\<lparr>outputs := output\<lparr>data := output_data\<rparr>\<rparr>))"




section \<open>LayerNorm (caffe2/operators/layer\_norm\_op\_hip.cc)\<close>

text \<open>
  The input holds real numbers. The cells of the three outputs are of type \<open>float\<close>:
  a standard deviation is NaN when the number under the square root is negative, and an
  element of the output is no real number when its standard deviation is zero or NaN.
\<close>

definition SqrTransform :: "real \<Rightarrow> real" where
  "SqrTransform v = v * v"

definition sqrtXMinusYSquaredKernel ::
  "int \<Rightarrow> real option list \<Rightarrow> real option list \<Rightarrow> real \<Rightarrow> real option list" where
  "sqrtXMinusYSquaredKernel N x y epsilon =
     HIP_1D_KERNEL_LOOP N
       (\<lambda>i x. x[i := float_sqrt
                        (float_add (float_sub (x ! i) (float_mul (y ! i) (y ! i)))
                           (Some epsilon))])
       x"

definition normalizeKernel ::
  "int \<Rightarrow> int \<Rightarrow> real list \<Rightarrow> real option list \<Rightarrow> real option list \<Rightarrow> real option list
     \<Rightarrow> real option list" where
  "normalizeKernel row_dim N x mu sigma out =
     HIP_1D_KERNEL_LOOP N
       (\<lambda>i out. out[i := float_div (float_sub (Some (x ! i)) (mu ! nat (int i sdiv row_dim)))
                            (sigma ! nat (int i sdiv row_dim))])
       out"

text \<open>
  \<open>hipcub::DeviceSegmentedReduce::Sum\<close> of the hipCUB library: the sum of the items of
  each segment, the segment \<open>s\<close> going from \<open>begin_offsets[s]\<close> up to \<open>end_offsets[s]\<close>.
  The input is an iterator, a function of the position.
\<close>

definition DeviceSegmentedReduce_Sum ::
  "(nat \<Rightarrow> real) \<Rightarrow> int \<Rightarrow> int list \<Rightarrow> int list \<Rightarrow> real option list \<Rightarrow> real option list"
  where
  "DeviceSegmentedReduce_Sum input num_segments begin_offsets end_offsets output =
     map (\<lambda>s. Some (sum_list (map input [nat (begin_offsets ! s)..<nat (end_offsets ! s)])))
       [0..<nat num_segments] @ drop (nat num_segments) output"

text \<open>
  \<open>allocScratchAndReduce\<close> asks the library for the size of its scratch space, resizes
  the scratch tensor and reduces; the ends of the segments are the starts of the next
  ones (\<open>seg_indices + 1\<close>).
\<close>

definition allocScratchAndReduce ::
  "(nat \<Rightarrow> real) \<Rightarrow> real option list \<Rightarrow> int \<Rightarrow> int list \<Rightarrow> real option list" where
  "allocScratchAndReduce input output num_segments seg_indices =
     DeviceSegmentedReduce_Sum input num_segments seg_indices (tl seg_indices) output"

text \<open>
  Modelled from the spec: \<open>math::Scale\<close> and \<open>math::Set\<close> of caffe2/utils/math, which
  are not among the sources: the first \<open>n\<close> cells of \<open>y\<close> become those of \<open>x\<close> times
  \<open>alpha\<close>, respectively \<open>alpha\<close>.
\<close>

definition math_Scale ::
  "int \<Rightarrow> real option \<Rightarrow> real option list \<Rightarrow> real option list \<Rightarrow> real option list" where
  "math_Scale n alpha x y = map (\<lambda>i. float_mul alpha (x ! i)) [0..<nat n] @ drop (nat n) y"

definition math_Set :: "int \<Rightarrow> 'a \<Rightarrow> 'a list \<Rightarrow> 'a list" where
  "math_Set n alpha y = replicate (nat n) alpha @ drop (nat n) y"

text \<open>
  \<open>DoRunWithType<float>\<close>, with the members \<open>axis_\<close> and \<open>epsilon_\<close> of the operator.
  The outputs are \<open>Output(0)\<close>, the mean and the standard deviation. The factor
  \<open>1.0f / right\<close> is no real number when \<open>right\<close> is zero.
\<close>

type_synonym LayerNorm_outputs =
  "real option tensor \<times> real option tensor \<times> real option tensor"

definition LayerNorm_DoRunWithType ::
  "int \<Rightarrow> real \<Rightarrow> (nat \<Rightarrow> real option) \<Rightarrow> real tensor
     \<Rightarrow> LayerNorm_outputs op_state \<Rightarrow> status \<times> LayerNorm_outputs op_state" where
  "LayerNorm_DoRunWithType axis epsilon fresh input st =
    (if \<not> 2 \<le> ndim input then (EnforceNotMet, st)
     else case canonical_axis_index axis input of
       None \<Rightarrow> (EnforceNotMet, st)
     | Some canonical_axis \<Rightarrow>
         let left = to_int32 (int (size_to_dim canonical_axis input));
             right = to_int32 (int (size_from_dim canonical_axis input));
             output = Resize fresh (dims input);
             stats_dims = take canonical_axis (dims input) @ [1];
             mean = Resize fresh stats_dims;
             stdev = Resize fresh stats_dims;
             segs = map (\<lambda>i. right * int i) [0..<nat (left + 1)];
             seg_indices = segs;
             (mean, stdev, st1) =
               (if right = 1 then
                  (\<lparr>dims = stats_dims, data = map Some (data input)\<rparr>,
                   stdev\<lparr>data := math_Set left (float_sqrt (Some epsilon)) (data stdev)\<rparr>,
                   st)
                else
                  let mean_data = allocScratchAndReduce (\<lambda>k. data input ! k) (data mean) left
                                    seg_indices;
                      mean_data = math_Scale left (float_div (Some 1) (Some (real_of_int right)))
                                    mean_data mean_data;
                      stdev_data = allocScratchAndReduce (\<lambda>k. SqrTransform (data input ! k))
                                     (data stdev) left seg_indices;
                      stdev_data = math_Scale left (float_div (Some 1) (Some (real_of_int right)))
                                     stdev_data stdev_data;
                      stdev_data = sqrtXMinusYSquaredKernel left stdev_data mean_data epsilon
                  in (mean\<lparr>data := mean_data\<rparr>, stdev\<lparr>data := stdev_data\<rparr>,
                      launch ''sqrtXMinusYSquaredKernel'' st));
             output_data = normalizeKernel right (left * right) (data input) (data mean)
                             (data stdev) (data output)
         in (Success,
             (launch ''normalizeKernel'' st1)
               \<lparr>outputs := (output\<lparr>data := output_data\<rparr>, mean, stdev)\<rparr>))"

text \<open>
  A run of the operator used below to exercise its properties: two rows of two
  elements.
\<close>

abbreviation LayerNorm_example_input :: "real tensor" where
  "LayerNorm_example_input \<equiv> \<lparr>dims = [2, 2], data = [1, 3, 5, 5]\<rparr>"

abbreviation LayerNorm_example_state :: "LayerNorm_outputs op_state" where
  "LayerNorm_example_state \<equiv>
     \<lparr>outputs = (\<lparr>dims = [], data = []\<rparr>, \<lparr>dims = [], data = []\<rparr>, \<lparr>dims = [], data = []\<rparr>),
      stream = []\<rparr>"

section \<open>Properties\<close>

subsection \<open>\<open>NumHipDevices\<close>\<close>

lemma NumHipDevices_cached:
  assumes "0 \<le> count s"
  shows "fst (NumHipDevices asan debug rt s) = Returned (count s)"
    and "queries (snd (NumHipDevices asan debug rt s)) = queries s"
    and "count (snd (NumHipDevices asan debug rt s)) = count s"
  using assms by (simp_all add: NumHipDevices_def Let_def)

lemma NumHipDevices_calls_cached:
  assumes "0 \<le> count s"
  shows "fst (NumHipDevices_calls asan cs s) = replicate (length cs) (Returned (count s))
       \<and> queries (snd (NumHipDevices_calls asan cs s)) = queries s"
  using assms
proof (induction cs arbitrary: s)
  case Nil
  then show ?case by simp
next
  case (Cons c cs)
  obtain debug rt where c: "c = (debug, rt)" by (cases c)
  obtain r s' where r: "NumHipDevices asan debug rt s = (r, s')" by (cases "NumHipDevices asan debug rt s")
  from NumHipDevices_cached [OF Cons.prems, of asan debug rt] r
  have r': "r = Returned (count s)" and q: "queries s' = queries s" and k: "count s' = count s"
    by simp_all
  from Cons.IH [of s'] Cons.prems k
  have "fst (NumHipDevices_calls asan cs s') = replicate (length cs) (Returned (count s))"
    and "queries (snd (NumHipDevices_calls asan cs s')) = queries s'"
    by simp_all
  then show ?case
    by (auto simp add: c r r' q split: prod.splits)
qed

lemma NumHipDevices_first:
  "fst (NumHipDevices asan debug rt hip_init) = first_answer asan rt"
  "queries (snd (NumHipDevices asan debug rt hip_init)) = 1"
  "first_answer asan rt = Returned n \<Longrightarrow> fst rt = hipSuccess \<longrightarrow> 0 \<le> snd rt \<Longrightarrow>
     count (snd (NumHipDevices asan debug rt hip_init)) = n \<and> 0 \<le> n"
  by (cases rt; cases "fst rt";
      simp add: NumHipDevices_def first_answer_def graceful_errors_def hip_init_def Let_def
           split: if_splits)+

text \<open>
  Claim C4, as stated, fails: the runtime error \<open>hipErrorUnknown\<close> is none of the
  no-device, insufficient-driver and initialization errors, and the function answers it
  with zero devices and an error log, not with a fatal log.
\<close>

theorem NumHipDevices_unknown_error_not_fatal:
  "hipErrorUnknown \<noteq> hipSuccess \<and> hipErrorUnknown \<notin> graceful_errors
   \<and> fst (NumHipDevices False False (hipErrorUnknown, - 1) hip_init) = Returned 0"
  by (simp add: NumHipDevices_def graceful_errors_def hip_init_def Let_def)

text \<open>
  Claim C4, amended. In a run of the process that starts with the static \<open>count\<close> at
  \<open>-1\<close>, \<open>hipGetDeviceCount\<close> is called once, by the first call of \<open>NumHipDevices\<close>.
  That call returns the reported count on success; it returns 0 on the no-device,
  insufficient-driver and initialization errors, on \<open>hipErrorUnknown\<close>, and on
  \<open>hipErrorMemoryAllocation\<close> in a build with the address sanitizer; any other error is
  fatal. Every later call returns the value of the first call without asking the runtime
  again (a successful query reports a count that is not negative).
\<close>

theorem NumHipDevices_queries_once:
  assumes "fst rt = hipSuccess \<longrightarrow> 0 \<le> snd rt"
  shows "queries (snd (NumHipDevices_calls asan ((debug, rt) # cs) hip_init)) = 1
       \<and> fst (NumHipDevices_calls asan ((debug, rt) # cs) hip_init) =
           (case first_answer asan rt of
              Fatal \<Rightarrow> [Fatal]
            | Returned n \<Rightarrow> replicate (Suc (length cs)) (Returned n))"
proof (cases "first_answer asan rt")
  case Fatal
  with NumHipDevices_first(1,2) [of asan debug rt] show ?thesis
    by (cases "NumHipDevices asan debug rt hip_init") simp
next
  case (Returned n)
  obtain s' where s': "NumHipDevices asan debug rt hip_init = (Returned n, s')"
    using NumHipDevices_first(1) [of asan debug rt] Returned
    by (cases "NumHipDevices asan debug rt hip_init") simp
  from NumHipDevices_first(2) [of asan debug rt] s' have q: "queries s' = 1" by simp
  from NumHipDevices_first(3) [OF Returned assms, of debug] s'
  have k: "count s' = n" "0 \<le> count s'" by simp_all
  from NumHipDevices_calls_cached [OF k(2), of asan cs] k(1) q
  show ?thesis
    by (auto simp add: s' Returned split: prod.splits)
qed

theorem NumHipDevices_queries_once_witness:
  "queries (snd (NumHipDevices_calls False
      [(True, hipSuccess, 2), (False, hipErrorOther 7, - 1), (True, hipErrorNoDevice, 0)]
      hip_init)) = 1
   \<and> fst (NumHipDevices_calls False
      [(True, hipSuccess, 2), (False, hipErrorOther 7, - 1), (True, hipErrorNoDevice, 0)]
      hip_init) = [Returned 2, Returned 2, Returned 2]"
  using NumHipDevices_queries_once [of "(hipSuccess, 2)" False True
      "[(False, hipErrorOther 7, - 1), (True, hipErrorNoDevice, 0)]"]
  by (simp add: first_answer_def)

subsection \<open>BooleanMask\<close>










subsection \<open>SparseToDense\<close>

lemma to_int32_id: "0 \<le> n \<Longrightarrow> n < 2 ^ 31 \<Longrightarrow> to_int32 n = n"
  by (simp add: to_int32_def)





lemma SparseToDense_row_outside:
  "SparseToDense_DoRunWithType2 (\<lambda>_. 7) (\<lambda>_. 0) 2 \<lparr>dims = [2], data = [0, - 1]\<rparr>
       \<lparr>dims = [2], data = [5, 6 :: int]\<rparr> SparseToDense_example_state =
     (DeviceFault,
      \<lparr>outputs = \<lparr>dims = [2], data = [0, 0]\<rparr>, stream = [''SparseToDenseKernel'']\<rparr>)"
  by (simp add: SparseToDense_DoRunWithType2_def ndim_def tensor_size_def dim32_def
        Resize_def size_from_dim_def Let_def SparseToDenseKernel_def
        SparseToDenseKernel_body_def to_int32_def launch_def numeral_2_eq_2)




subsection \<open>Checks at operator entry\<close>

lemma BooleanUnmask_checks_iff:
  "BooleanUnmask_checks maskSize inputs \<longleftrightarrow>
     (\<forall>(m, v)\<in>set inputs. ndim m = 1 \<and> int (tensor_size m) = maskSize \<and> ndim v = 1)"
  by (induction maskSize inputs rule: BooleanUnmask_checks.induct) auto

lemma BooleanUnmask_rejects:
  assumes "\<exists>(m, v)\<in>set (first_inputs # more_inputs).
             ndim m \<noteq> 1 \<or> tensor_size m \<noteq> tensor_size (fst first_inputs) \<or> ndim v \<noteq> 1"
  shows "BooleanUnmask_RunOnDevice fresh fresh_idx itemsize first_inputs more_inputs st =
           (EnforceNotMet,
            st\<lparr>outputs := Resize_raw fresh itemsize
                  [nat (to_int32 (int (tensor_size (fst first_inputs))))]\<rparr>)"
proof -
  define maskSize where "maskSize = to_int32 (int (tensor_size (fst first_inputs)))"
  have "\<not> BooleanUnmask_checks maskSize (first_inputs # more_inputs)"
  proof
    assume "BooleanUnmask_checks maskSize (first_inputs # more_inputs)"
    then have ok: "\<And>m v. (m, v) \<in> set (first_inputs # more_inputs) \<Longrightarrow>
        ndim m = 1 \<and> int (tensor_size m) = maskSize \<and> ndim v = 1"
      unfolding BooleanUnmask_checks_iff by blast
    have "(fst first_inputs, snd first_inputs) \<in> set (first_inputs # more_inputs)" by simp
    from ok [OF this] have "int (tensor_size (fst first_inputs)) = maskSize" by simp
    with ok have "\<And>m v. (m, v) \<in> set (first_inputs # more_inputs) \<Longrightarrow>
        ndim m = 1 \<and> tensor_size m = tensor_size (fst first_inputs) \<and> ndim v = 1"
      by fastforce
    with assms show False by blast
  qed
  then show ?thesis
    by (simp add: BooleanUnmask_RunOnDevice_def Let_def maskSize_def)
qed

text \<open>
  Claim C5, as stated, fails for BooleanUnmask: the operator gives its output the shape
  of the first mask before it checks its inputs. Here the mask has rank 2: the call
  fails its check, and the output, which had no dimension, has become a tensor of two
  cells.
\<close>

theorem BooleanUnmask_resizes_before_checks:
  "fst (BooleanUnmask_RunOnDevice (\<lambda>_. 0) (\<lambda>_. 0) 1
          (\<lparr>dims = [2, 1], data = [True, False]\<rparr>, \<lparr>dims = [1], data = [5::nat]\<rparr>) []
          \<lparr>outputs = \<lparr>dims = [], data = []\<rparr>, stream = []\<rparr>) = EnforceNotMet
   \<and> outputs (snd (BooleanUnmask_RunOnDevice (\<lambda>_. 0) (\<lambda>_. 0) 1
          (\<lparr>dims = [2, 1], data = [True, False]\<rparr>, \<lparr>dims = [1], data = [5::nat]\<rparr>) []
          \<lparr>outputs = \<lparr>dims = [], data = []\<rparr>, stream = []\<rparr>))
       = \<lparr>dims = [2], data = [0, 0]\<rparr>"
  by (simp add: BooleanUnmask_RunOnDevice_def Let_def ndim_def tensor_size_def to_int32_def
        Resize_raw_def upt_rec)

text \<open>
  Claim C5, amended. BooleanMask (source of rank at least 1, mask of rank 1, equal
  dimensions 0) and SparseToDense (indices of rank 1, values of rank at least 1, as many
  indices as value slices) reject an input that breaks one of their requirements by a
  failed check at entry, and leave outputs and stream as they found them. BooleanUnmask
  (every mask of rank 1 and of the size of the first mask, all values of rank 1) rejects
  such an input by a failed check as well; it has by then given its output the shape of
  the first mask, and has launched no kernel: no element of the output is written.
\<close>

theorem operators_check_shapes:
  "(\<not> (1 \<le> ndim src \<and> ndim mask_in = 1 \<and> dims src ! 0 = dims mask_in ! 0) \<longrightarrow>
      BooleanMask_RunOnDevice fresh fresh_idx itemsize src mask_in st = (EnforceNotMet, st))
   \<and> (\<not> (ndim sparse_indices = 1 \<and> 1 \<le> ndim sparse_values
           \<and> tensor_size sparse_indices = dims sparse_values ! 0) \<longrightarrow>
      SparseToDense_DoRunWithType2 fresh' pick output_first_dim sparse_indices sparse_values st'
        = (EnforceNotMet, st'))
   \<and> ((\<exists>(m, v)\<in>set (first_inputs # more_inputs).
          ndim m \<noteq> 1 \<or> tensor_size m \<noteq> tensor_size (fst first_inputs) \<or> ndim v \<noteq> 1) \<longrightarrow>
      fst (BooleanUnmask_RunOnDevice fresh'' fresh_idx' itemsize' first_inputs more_inputs st'')
        = EnforceNotMet
      \<and> stream (snd (BooleanUnmask_RunOnDevice fresh'' fresh_idx' itemsize' first_inputs more_inputs st''))
        = stream st''
      \<and> outputs (snd (BooleanUnmask_RunOnDevice fresh'' fresh_idx' itemsize' first_inputs more_inputs st''))
        = Resize_raw fresh'' itemsize' [nat (to_int32 (int (tensor_size (fst first_inputs))))])"
proof (intro conjI impI)
  assume "\<not> (1 \<le> ndim src \<and> ndim mask_in = 1 \<and> dims src ! 0 = dims mask_in ! 0)"
  then show "BooleanMask_RunOnDevice fresh fresh_idx itemsize src mask_in st = (EnforceNotMet, st)"
    by (auto simp add: BooleanMask_RunOnDevice_def)
next
  assume "\<not> (ndim sparse_indices = 1 \<and> 1 \<le> ndim sparse_values
           \<and> tensor_size sparse_indices = dims sparse_values ! 0)"
  then show "SparseToDense_DoRunWithType2 fresh' pick output_first_dim sparse_indices
       sparse_values st' = (EnforceNotMet, st')"
    by (auto simp add: SparseToDense_DoRunWithType2_def)
next
  assume a: "\<exists>(m, v)\<in>set (first_inputs # more_inputs).
          ndim m \<noteq> 1 \<or> tensor_size m \<noteq> tensor_size (fst first_inputs) \<or> ndim v \<noteq> 1"
  note r = BooleanUnmask_rejects [OF a, of fresh'' fresh_idx' itemsize' st'']
  show "fst (BooleanUnmask_RunOnDevice fresh'' fresh_idx' itemsize' first_inputs more_inputs st'')
        = EnforceNotMet" by (simp add: r)
  show "stream (snd (BooleanUnmask_RunOnDevice fresh'' fresh_idx' itemsize' first_inputs more_inputs st''))
        = stream st''" by (simp add: r)
  show "outputs (snd (BooleanUnmask_RunOnDevice fresh'' fresh_idx' itemsize' first_inputs more_inputs st''))
        = Resize_raw fresh'' itemsize' [nat (to_int32 (int (tensor_size (fst first_inputs))))]"
    by (simp add: r)
qed

theorem operators_check_shapes_witness:
  "BooleanMask_RunOnDevice (\<lambda>_. 0) (\<lambda>_. 0) 2 BooleanMask_example_src
       \<lparr>dims = [2], data = [True, False]\<rparr> BooleanMask_example_state
     = (EnforceNotMet, BooleanMask_example_state)
   \<and> SparseToDense_DoRunWithType2 (\<lambda>_. 7) (\<lambda>n. 2 * n + 1) 2
       \<lparr>dims = [3, 1], data = [1, 0, 1]\<rparr> SparseToDense_example_values
       SparseToDense_example_state
     = (EnforceNotMet, SparseToDense_example_state)
   \<and> fst (BooleanUnmask_RunOnDevice (\<lambda>_. 0) (\<lambda>_. 0) 1
            (\<lparr>dims = [2], data = [True, False]\<rparr>, \<lparr>dims = [1], data = [5::nat]\<rparr>)
            [(\<lparr>dims = [3], data = [False, True, False]\<rparr>, \<lparr>dims = [1], data = [6]\<rparr>)]
            \<lparr>outputs = \<lparr>dims = [], data = []\<rparr>, stream = []\<rparr>) = EnforceNotMet
   \<and> stream (snd (BooleanUnmask_RunOnDevice (\<lambda>_. 0) (\<lambda>_. 0) 1
            (\<lparr>dims = [2], data = [True, False]\<rparr>, \<lparr>dims = [1], data = [5::nat]\<rparr>)
            [(\<lparr>dims = [3], data = [False, True, False]\<rparr>, \<lparr>dims = [1], data = [6]\<rparr>)]
            \<lparr>outputs = \<lparr>dims = [], data = []\<rparr>, stream = []\<rparr>)) = []"
  using operators_check_shapes [where src = BooleanMask_example_src
      and mask_in = "\<lparr>dims = [2], data = [True, False]\<rparr>"
      and fresh = "\<lambda>_. 0" and fresh_idx = "\<lambda>_. 0" and itemsize = 2
      and st = BooleanMask_example_state
      and sparse_indices = "\<lparr>dims = [3, 1], data = [1, 0, 1]\<rparr>"
      and sparse_values = SparseToDense_example_values
      and fresh' = "\<lambda>_. 7" and pick = "\<lambda>n. 2 * n + 1" and output_first_dim = 2
      and st' = SparseToDense_example_state
      and first_inputs = "(\<lparr>dims = [2], data = [True, False]\<rparr>, \<lparr>dims = [1], data = [5::nat]\<rparr>)"
      and more_inputs = "[(\<lparr>dims = [3], data = [False, True, False]\<rparr>, \<lparr>dims = [1], data = [6]\<rparr>)]"
      and fresh'' = "\<lambda>_. 0" and fresh_idx' = "\<lambda>_. 0" and itemsize' = 1
      and st'' = "\<lparr>outputs = \<lparr>dims = [], data = []\<rparr>, stream = []\<rparr>"]
  by (simp add: ndim_def tensor_size_def)

subsection \<open>SequenceMask\<close>

lemma sdiv_nat: "int a sdiv int b = int (a div b)"
  by (simp add: signed_divide_int_def sgn_if zdiv_int)

lemma smod_nat: "int a smod int b = int (a mod b)"
  by (simp add: signed_modulo_int_def sgn_if zmod_int)

lemma kernel_loop_pointwise:
  "nat n \<le> length out \<Longrightarrow>
   HIP_1D_KERNEL_LOOP n (\<lambda>i out. out[i := f i]) out = map f [0..<nat n] @ drop (nat n) out"
proof (induction "nat n" arbitrary: n)
  case 0
  then show ?case by (simp add: HIP_1D_KERNEL_LOOP_def)
next
  case (Suc m)
  then have n: "nat n = Suc m" and m: "m = nat (n - 1)" by simp_all
  from Suc.prems n have le: "nat (n - 1) \<le> length out" by simp
  from Suc.hyps(1) [OF m le]
  have IH: "fold (\<lambda>i out. out[i := f i]) [0..<m] out = map f [0..<m] @ drop m out"
    by (simp add: HIP_1D_KERNEL_LOOP_def m)
  from Suc.prems n have "m < length out" by simp
  then have "(map f [0..<m] @ drop m out)[m := f m] = map f [0..<m] @ f m # drop (Suc m) out"
    by (simp add: list_update_append Cons_nth_drop_Suc [symmetric])
  with IH show ?case
    by (simp add: HIP_1D_KERNEL_LOOP_def n)
qed

lemma size_to_from_dim: "size_to_dim k t * size_from_dim k t = tensor_size t"
proof -
  have "prod_list (take k (dims t) @ drop k (dims t)) = prod_list (dims t)" by simp
  then show ?thesis
    unfolding size_to_dim_def size_from_dim_def tensor_size_def prod_list.append .
qed

lemma maskKernel_plain_nth:
  assumes "length out = n * m" "idx < n * m"
  shows "length (maskKernel_plain (int n) (int m) masked inp fill_val out) = n * m"
    and "maskKernel_plain (int n) (int m) masked inp fill_val out ! idx =
          (if masked (int (idx div m)) (int (idx mod m)) then fill_val else inp ! idx)"
proof -
  have eq: "maskKernel_plain (int n) (int m) masked inp fill_val out =
      map (\<lambda>index. if masked (int (index div m)) (int (index mod m)) then fill_val
                    else inp ! index) [0..<n * m] @ drop (n * m) out"
  proof -
    have nm: "nat (int n * int m) = n * m" by (simp add: nat_mult_distrib)
    from assms(1) have "nat (int n * int m) \<le> length out" by (simp add: nm)
    from kernel_loop_pointwise [OF this] show ?thesis
      by (simp add: maskKernel_plain_def Let_def sdiv_nat smod_nat nm)
  qed
  from assms show "length (maskKernel_plain (int n) (int m) masked inp fill_val out) = n * m"
    by (simp add: eq)
  from assms show "maskKernel_plain (int n) (int m) masked inp fill_val out ! idx =
          (if masked (int (idx div m)) (int (idx mod m)) then fill_val else inp ! idx)"
    by (simp add: eq nth_append)
qed

lemma SequenceMask_unsupported_mode:
  "mode_arg args \<notin> SequenceMask_modes \<Longrightarrow>
   fst (SequenceMask_DoRunWithType args fresh input second_input st) = EnforceNotMet"
  by (auto simp add: SequenceMask_DoRunWithType_def SequenceMask_modes_def Let_def
        split: option.splits)

lemma SequenceMask_sequence_rows:
  assumes mode: "mode_arg args = ''sequence''" "batch_arg args = None"
      "repeat_from_arg args = None"
    and ax: "canonical_axis_index (axis_arg args) input = Some ca"
    and fits: "tensor_size input < 2 ^ 31"
  shows "SequenceMask_DoRunWithType args fresh input second_input st =
     (Success,
      st\<lparr>outputs := \<lparr>dims = dims input,
             data = map (\<lambda>idx. if int (idx mod size_from_dim ca input)
                                    \<ge> data second_input ! (idx div size_from_dim ca input)
                                 then (if grad_arg args then 0 else fill_val_arg args)
                                 else data input ! idx)
                      [0..<tensor_size input]\<rparr>,
          stream := stream st @ [''sequenceMaskKernel'']\<rparr>)"
proof -
  define N where "N = size_to_dim ca input"
  define M where "M = size_from_dim ca input"
  define fill where "fill = (if grad_arg args then 0 else fill_val_arg args)"
  define out0 where "out0 = map fresh [0..<tensor_size input]"
  have NM: "N * M = tensor_size input" by (simp add: N_def M_def size_to_from_dim)
  have kernel: "sequenceMaskKernel (to_int32 (int N)) (to_int32 (int M)) (- 1) (data input)
       (data second_input) fill out0 =
     map (\<lambda>idx. if int (idx mod M) \<ge> data second_input ! (idx div M) then fill
                 else data input ! idx) [0..<N * M]"
  proof (cases "N * M = 0")
    case True
    then have "to_int32 (int N) * to_int32 (int M) = 0"
      by (auto simp add: to_int32_def)
    with True NM show ?thesis
      by (auto simp add: sequenceMaskKernel_def maskKernel_plain_def HIP_1D_KERNEL_LOOP_def
            out0_def)
  next
    case False
    then have pos: "0 < N" "0 < M" by simp_all
    then have "N \<le> N * M" "M \<le> N * M" by simp_all
    with fits NM have "N < 2 ^ 31" "M < 2 ^ 31" by simp_all
    then have "int N < 2 ^ 31" "int M < 2 ^ 31"
      by (metis of_nat_less_iff of_nat_numeral of_nat_power)+
    then have n: "to_int32 (int N) = int N" "to_int32 (int M) = int M"
      by (simp_all add: to_int32_id)
    have len: "length out0 = N * M" by (simp add: out0_def NM)
    have "maskKernel_plain (int N) (int M) (\<lambda>i j. j \<ge> data second_input ! nat i) (data input) fill out0
        = map (\<lambda>idx. if int (idx mod M) \<ge> data second_input ! (idx div M) then fill
                 else data input ! idx) [0..<N * M]"
    proof (rule nth_equalityI)
      show "length (maskKernel_plain (int N) (int M) (\<lambda>i j. j \<ge> data second_input ! nat i)
           (data input) fill out0) = length (map (\<lambda>idx. if int (idx mod M)
             \<ge> data second_input ! (idx div M) then fill else data input ! idx) [0..<N * M])"
        using maskKernel_plain_nth(1) [OF len, of 0] pos by simp
    next
      fix idx assume "idx < length (maskKernel_plain (int N) (int M)
           (\<lambda>i j. j \<ge> data second_input ! nat i) (data input) fill out0)"
      with maskKernel_plain_nth(1) [OF len, of 0] pos have idx: "idx < N * M" by simp
      from maskKernel_plain_nth(2) [OF len idx] idx
      show "maskKernel_plain (int N) (int M) (\<lambda>i j. j \<ge> data second_input ! nat i)
             (data input) fill out0 ! idx =
           map (\<lambda>idx. if int (idx mod M) \<ge> data second_input ! (idx div M) then fill
                 else data input ! idx) [0..<N * M] ! idx"
        by simp
    qed
    with n show ?thesis by (simp add: sequenceMaskKernel_def)
  qed
  show ?thesis
    using mode ax kernel
    unfolding N_def M_def fill_def out0_def NM [unfolded N_def M_def]
    by (simp add: SequenceMask_DoRunWithType_def Let_def Resize_def launch_def tensor_size_def)
qed

text \<open>
  Claim C6, as stated, fails when the operator has the argument \<open>repeat_from_axis\<close>: it
  then launches \<open>repeatedSequenceMaskKernel\<close>, which masks by blocks of columns. Here the
  input has one row of four columns (two blocks of two) and the sequence length is 1:
  the column 1 is not below the sequence length, and yet the output keeps the input
  there, where the claim has the fill value 0.
\<close>

theorem SequenceMask_repeat_from_axis_differs:
  "mode_arg SequenceMask_example_args = ''sequence''
   \<and> batch_arg SequenceMask_example_args = None
   \<and> canonical_axis_index (axis_arg SequenceMask_example_args) SequenceMask_example_input
       = Some 1
   \<and> size_from_dim 1 SequenceMask_example_input = 4
   \<and> fst (SequenceMask_DoRunWithType SequenceMask_example_args (\<lambda>_. 7)
        SequenceMask_example_input \<lparr>dims = [1], data = [1]\<rparr> SequenceMask_example_state)
       = Success
   \<and> data (outputs (snd (SequenceMask_DoRunWithType SequenceMask_example_args (\<lambda>_. 7)
        SequenceMask_example_input \<lparr>dims = [1], data = [1]\<rparr> SequenceMask_example_state)))
         ! (0 * 4 + 1) = 20
   \<and> (if (1::int) < [1] ! 0 then data SequenceMask_example_input ! (0 * 4 + 1)
       else (if grad_arg SequenceMask_example_args then 0
             else fill_val_arg SequenceMask_example_args)) = 0"
  by (simp add: SequenceMask_DoRunWithType_def canonical_axis_index_def ndim_def
        size_from_dim_def size_to_dim_def to_int32_def Resize_def launch_def Let_def
        repeatedSequenceMaskKernel_def HIP_1D_KERNEL_LOOP_def upt_rec
        signed_divide_int_def signed_modulo_int_def)

text \<open>
  Claim C6, amended. In the mode \<open>sequence\<close>, without the arguments \<open>batch\<close> and
  \<open>repeat_from_axis\<close>, the operator succeeds and its output has the shape of the input;
  seen as a matrix of \<open>N\<close> rows and \<open>M\<close> columns around the canonical axis, its element
  \<open>(i, j)\<close> is that of the input when \<open>j\<close> is below the \<open>i\<close>-th sequence length, and
  the fill value otherwise. (There is a sequence length for each row, and the number of
  elements fits the kernel's \<open>int\<close> variables.) A mode that is none of \<open>sequence\<close>,
  \<open>window\<close>, \<open>upper\<close>, \<open>lower\<close>, \<open>upperdiag\<close> and \<open>lowerdiag\<close> fails a check.
\<close>

theorem SequenceMask_sequence_mode:
  "(mode_arg args = ''sequence'' \<and> batch_arg args = None \<and> repeat_from_arg args = None
      \<and> canonical_axis_index (axis_arg args) input = Some ca
      \<and> wf_tensor input \<and> size_to_dim ca input \<le> length (data second_input)
      \<and> tensor_size input < 2 ^ 31 \<longrightarrow>
      fst (SequenceMask_DoRunWithType args fresh input second_input st) = Success
      \<and> dims (outputs (snd (SequenceMask_DoRunWithType args fresh input second_input st)))
          = dims input
      \<and> wf_tensor (outputs (snd (SequenceMask_DoRunWithType args fresh input second_input st)))
      \<and> (\<forall>i<size_to_dim ca input. \<forall>j<size_from_dim ca input.
            data (outputs (snd (SequenceMask_DoRunWithType args fresh input second_input st)))
              ! (i * size_from_dim ca input + j) =
            (if int j < data second_input ! i then data input ! (i * size_from_dim ca input + j)
             else (if grad_arg args then 0 else fill_val_arg args))))
   \<and> (mode_arg args' \<notin> SequenceMask_modes \<longrightarrow>
        fst (SequenceMask_DoRunWithType args' fresh' input' second_input' st') = EnforceNotMet)"
proof (intro conjI impI allI)
  assume a: "mode_arg args = ''sequence'' \<and> batch_arg args = None \<and> repeat_from_arg args = None
      \<and> canonical_axis_index (axis_arg args) input = Some ca
      \<and> wf_tensor input \<and> size_to_dim ca input \<le> length (data second_input)
      \<and> tensor_size input < 2 ^ 31"
  then have run: "SequenceMask_DoRunWithType args fresh input second_input st =
     (Success,
      st\<lparr>outputs := \<lparr>dims = dims input,
             data = map (\<lambda>idx. if int (idx mod size_from_dim ca input)
                                    \<ge> data second_input ! (idx div size_from_dim ca input)
                                 then (if grad_arg args then 0 else fill_val_arg args)
                                 else data input ! idx)
                      [0..<tensor_size input]\<rparr>,
          stream := stream st @ [''sequenceMaskKernel'']\<rparr>)"
    by (intro SequenceMask_sequence_rows) simp_all
  show "fst (SequenceMask_DoRunWithType args fresh input second_input st) = Success"
    by (simp add: run)
  show "dims (outputs (snd (SequenceMask_DoRunWithType args fresh input second_input st)))
          = dims input"
    by (simp add: run)
  show "wf_tensor (outputs (snd (SequenceMask_DoRunWithType args fresh input second_input st)))"
    by (simp add: run wf_tensor_def tensor_size_def)
  fix i j assume i: "i < size_to_dim ca input" and j: "j < size_from_dim ca input"
  from i have "Suc i \<le> size_to_dim ca input" by simp
  then have "Suc i * size_from_dim ca input \<le> size_to_dim ca input * size_from_dim ca input"
    by (rule mult_le_mono1)
  with j have "i * size_from_dim ca input + j < tensor_size input"
    by (simp add: size_to_from_dim)
  with j show "data (outputs (snd (SequenceMask_DoRunWithType args fresh input second_input st)))
              ! (i * size_from_dim ca input + j) =
            (if int j < data second_input ! i then data input ! (i * size_from_dim ca input + j)
             else (if grad_arg args then 0 else fill_val_arg args))"
    by (simp add: run)
next
  assume "mode_arg args' \<notin> SequenceMask_modes"
  then show "fst (SequenceMask_DoRunWithType args' fresh' input' second_input' st') = EnforceNotMet"
    by (rule SequenceMask_unsupported_mode)
qed

theorem SequenceMask_sequence_mode_witness:
  "fst (SequenceMask_DoRunWithType
          (SequenceMask_example_args\<lparr>repeat_from_arg := None, fill_val_arg := 9\<rparr>) (\<lambda>_. 7)
          SequenceMask_example_input \<lparr>dims = [1], data = [1]\<rparr> SequenceMask_example_state)
     = Success
   \<and> data (outputs (snd (SequenceMask_DoRunWithType
          (SequenceMask_example_args\<lparr>repeat_from_arg := None, fill_val_arg := 9\<rparr>) (\<lambda>_. 7)
          SequenceMask_example_input \<lparr>dims = [1], data = [1]\<rparr> SequenceMask_example_state)))
       ! (0 * 4 + 1) = 9
   \<and> fst (SequenceMask_DoRunWithType (SequenceMask_example_args\<lparr>mode_arg := ''diagonal''\<rparr>)
          (\<lambda>_. 7) SequenceMask_example_input \<lparr>dims = [1], data = [1]\<rparr>
          SequenceMask_example_state) = EnforceNotMet"
  using SequenceMask_sequence_mode [where
      args = "SequenceMask_example_args\<lparr>repeat_from_arg := None, fill_val_arg := 9\<rparr>"
      and fresh = "\<lambda>_. 7" and input = SequenceMask_example_input
      and second_input = "\<lparr>dims = [1], data = [1]\<rparr>" and st = SequenceMask_example_state
      and ca = 1
      and args' = "SequenceMask_example_args\<lparr>mode_arg := ''diagonal''\<rparr>"
      and fresh' = "\<lambda>_. 7" and input' = SequenceMask_example_input
      and second_input' = "\<lparr>dims = [1], data = [1]\<rparr>" and st' = SequenceMask_example_state]
  by (simp add: canonical_axis_index_def ndim_def wf_tensor_def tensor_size_def
        size_to_dim_def size_from_dim_def SequenceMask_modes_def)














subsection \<open>Adagrad\<close>

lemma fold_pointwise2:
  "m \<le> length a \<Longrightarrow> m \<le> length b \<Longrightarrow>
   fold (\<lambda>i (a, b). (a[i := f i], b[i := g i])) [0..<m] (a, b) =
     (map f [0..<m] @ drop m a, map g [0..<m] @ drop m b)"
proof (induction m)
  case 0
  then show ?case by simp
next
  case (Suc m)
  then have "m < length a" "m < length b" by simp_all
  then have "(map f [0..<m] @ drop m a)[m := f m] = map f [0..<m] @ f m # drop (Suc m) a"
    "(map g [0..<m] @ drop m b)[m := g m] = map g [0..<m] @ g m # drop (Suc m) b"
    by (simp_all add: list_update_append Cons_nth_drop_Suc [symmetric])
  with Suc show ?case by simp
qed

lemma float_ops_Some:
  "float_add (Some x) (Some y) = Some (x + y)"
  "float_sub (Some x) (Some y) = Some (x - y)"
  "float_mul (Some x) (Some y) = Some (x * y)"
  "y \<noteq> 0 \<Longrightarrow> float_div (Some x) (Some y) = Some (x / y)"
  "0 \<le> x \<Longrightarrow> float_sqrt (Some x) = Some (sqrt x)"
  by (simp_all add: float_add_def float_sub_def float_mul_def float_div_def float_sqrt_def)

lemma AdagradUpdate_cells:
  assumes "length nw = N" "length nh = N"
  shows "AdagradUpdate (int N) w g h epsilon decay lr (nw, nh) =
    (map (\<lambda>i. float_add (Some (w ! i))
                 (float_div (Some (lr ! 0 * g ! i))
                    (float_add (float_sqrt (Some (decay * h ! i + g ! i * g ! i)))
                       (Some epsilon)))) [0..<N],
     map (\<lambda>i. Some (decay * h ! i + g ! i * g ! i)) [0..<N])"
  using fold_pointwise2 [of N nw nh
      "\<lambda>i. float_add (Some (w ! i))
                 (float_div (Some (lr ! 0 * g ! i))
                    (float_add (float_sqrt (Some (decay * h ! i + g ! i * g ! i)))
                       (Some epsilon)))"
      "\<lambda>i. Some (decay * h ! i + g ! i * g ! i)"] assms
  by (simp add: AdagradUpdate_def HIP_1D_KERNEL_LOOP_def Let_def)

lemma AdagradUpdate_zero_divisor:
  "fst (AdagradUpdate 1 [1] [0] [0] 0 1 [1] ([Some 0], [Some 0])) = [None]"
  "fst (AdagradUpdate 1 [1] [0] [- 1] 0 1 [1] ([Some 0], [Some 0])) = [None]"
  by (simp_all add: AdagradUpdate_def HIP_1D_KERNEL_LOOP_def float_add_def float_div_def
        float_sqrt_def)

text \<open>
  Claim C7. The dense update gives, at every index \<open>i\<close> of the \<open>N\<close> elements, the new
  moment \<open>nh[i] = decay * h[i] + g[i]^2\<close> and the new parameter
  \<open>w[i] + lr[0] * g[i] / (sqrt(nh[i]) + epsilon)\<close>, with \<open>lr\<close> a tensor of one element,
  where the formula has a value: the new moment is not negative and the divisor
  \<open>sqrt(nh[i]) + epsilon\<close> is not zero. The constructor of the SparseAdagrad operator
  fails its check for every \<open>decay\<close> argument other than 1.
\<close>

theorem Adagrad_update_and_decay:
  "(length w = N \<and> length g = N \<and> length h = N \<and> length lr = 1
      \<and> length nw = N \<and> length nh = N \<and> i < N
      \<and> 0 \<le> decay * h ! i + (g ! i)\<^sup>2 \<and> sqrt (decay * h ! i + (g ! i)\<^sup>2) + epsilon \<noteq> 0 \<longrightarrow>
      (\<exists>nhi. nhi = decay * h ! i + (g ! i)\<^sup>2
        \<and> snd (outputs (adagrad_update (int N) w g h epsilon decay lr
             \<lparr>outputs = (nw, nh), stream = s\<rparr>)) ! i = Some nhi
        \<and> fst (outputs (adagrad_update (int N) w g h epsilon decay lr
             \<lparr>outputs = (nw, nh), stream = s\<rparr>)) ! i
            = Some (w ! i + lr ! 0 * g ! i / (sqrt nhi + epsilon))))
   \<and> (d \<noteq> 1 \<longrightarrow> HIPSparseAdagradOp epsilon_arg (Some d) = Inl EnforceNotMet)"
proof (intro conjI impI)
  assume a: "length w = N \<and> length g = N \<and> length h = N \<and> length lr = 1
      \<and> length nw = N \<and> length nh = N \<and> i < N
      \<and> 0 \<le> decay * h ! i + (g ! i)\<^sup>2 \<and> sqrt (decay * h ! i + (g ! i)\<^sup>2) + epsilon \<noteq> 0"
  then have c: "outputs (adagrad_update (int N) w g h epsilon decay lr
             \<lparr>outputs = (nw, nh), stream = s\<rparr>) =
    (map (\<lambda>i. float_add (Some (w ! i))
                 (float_div (Some (lr ! 0 * g ! i))
                    (float_add (float_sqrt (Some (decay * h ! i + g ! i * g ! i)))
                       (Some epsilon)))) [0..<N],
     map (\<lambda>i. Some (decay * h ! i + g ! i * g ! i)) [0..<N])"
    by (simp add: adagrad_update_def launch_def AdagradUpdate_cells)
  from a have "snd (outputs (adagrad_update (int N) w g h epsilon decay lr
             \<lparr>outputs = (nw, nh), stream = s\<rparr>)) ! i = Some (decay * h ! i + (g ! i)\<^sup>2)"
    by (simp add: c power2_eq_square)
  moreover from a have "fst (outputs (adagrad_update (int N) w g h epsilon decay lr
             \<lparr>outputs = (nw, nh), stream = s\<rparr>)) ! i
        = Some (w ! i + lr ! 0 * g ! i / (sqrt (decay * h ! i + (g ! i)\<^sup>2) + epsilon))"
    by (simp add: c power2_eq_square float_ops_Some)
  ultimately show "\<exists>nhi. nhi = decay * h ! i + (g ! i)\<^sup>2
        \<and> snd (outputs (adagrad_update (int N) w g h epsilon decay lr
             \<lparr>outputs = (nw, nh), stream = s\<rparr>)) ! i = Some nhi
        \<and> fst (outputs (adagrad_update (int N) w g h epsilon decay lr
             \<lparr>outputs = (nw, nh), stream = s\<rparr>)) ! i
            = Some (w ! i + lr ! 0 * g ! i / (sqrt nhi + epsilon))"
    by simp
next
  assume "d \<noteq> 1"
  then show "HIPSparseAdagradOp epsilon_arg (Some d) = Inl EnforceNotMet"
    by (simp add: HIPSparseAdagradOp_def)
qed

theorem Adagrad_update_and_decay_witness:
  "snd (outputs (adagrad_update 2 [1, 2] [3, 4] [16, 0] 1 1 [2]
         \<lparr>outputs = ([None, None], [None, None]), stream = []\<rparr>)) ! 0 = Some 25
   \<and> fst (outputs (adagrad_update 2 [1, 2] [3, 4] [16, 0] 1 1 [2]
         \<lparr>outputs = ([None, None], [None, None]), stream = []\<rparr>)) ! 0 = Some 2
   \<and> HIPSparseAdagradOp None (Some (1 / 2)) = Inl EnforceNotMet
   \<and> HIPSparseAdagradOp None None = Inr (1 / 100000)"
proof -
  have sq: "sqrt 25 = 5" using real_sqrt_abs [of 5] by simp
  from Adagrad_update_and_decay [where N = 2 and w = "[1, 2]" and g = "[3, 4]"
      and h = "[16, 0]" and lr = "[2]" and nw = "[None, None]" and nh = "[None, None]"
      and i = 0 and epsilon = 1 and decay = 1 and s = "[]" and d = "1 / 2"
      and epsilon_arg = None]
  show ?thesis
    by (simp add: sq HIPSparseAdagradOp_def)
qed
subsection \<open>RMACRegions\<close>















subsection \<open>Empty inputs\<close>

text \<open>
  Claim C10. On an empty input the operators return \<open>true\<close> and leave their outputs and
  the stream as they found them: no kernel is launched, and no output is resized or
  written. For SparseAdagrad this is \<open>DoRunWithType\<close> when the indices are empty and
  \<open>DoRunWithType2\<close> when the gradient has no element (the shape checks of \<open>RunOnDevice\<close>
  come first: whatever they find, the state is not changed); for RowWiseSparseAdagrad it
  is \<open>DoRunWithType\<close> when the gradient has no element; for RMACRegions it is
  \<open>RunOnDevice\<close> when the input has no element.
\<close>

theorem empty_input_returns_at_once:
  "(tensor_size indices = 0 \<or> tensor_size grad = 0 \<longrightarrow>
      HIPSparseAdagrad_DoRunWithType epsilon indices grad lr st = (Success, st)
      \<and> snd (HIPSparseAdagrad_RunOnDevice epsilon indices grad lr st) = st)
   \<and> (tensor_size grad = 0 \<longrightarrow>
      HIPSparseAdagrad_DoRunWithType2 epsilon indices grad lr st = (Success, st))
   \<and> (tensor_size grad' = 0 \<longrightarrow>
      RowWiseSparseAdagrad_DoRunWithType epsilon' indices' grad' lr' st' = (Success, st'))
   \<and> (tensor_size X = 0 \<longrightarrow>
      RMACRegions_RunOnDevice fl key_init block_dim output_shared fresh overlap scales X st''
        = (Success, st''))"
  by (auto simp add: HIPSparseAdagrad_DoRunWithType_def HIPSparseAdagrad_DoRunWithType2_def
        HIPSparseAdagrad_RunOnDevice_def RowWiseSparseAdagrad_DoRunWithType_def
        RMACRegions_RunOnDevice_def Let_def split: prod.splits)

theorem empty_input_returns_at_once_witness:
  "HIPSparseAdagrad_DoRunWithType (1 / 100000) \<lparr>dims = [0], data = []\<rparr>
       \<lparr>dims = [0, 2], data = []\<rparr> \<lparr>dims = [1], data = [1 / 10]\<rparr> Adagrad_example_state
     = (Success, Adagrad_example_state)
   \<and> HIPSparseAdagrad_RunOnDevice (1 / 100000) \<lparr>dims = [0], data = []\<rparr>
       \<lparr>dims = [0, 2], data = []\<rparr> \<lparr>dims = [1], data = [1 / 10]\<rparr> Adagrad_example_state
     = (Success, Adagrad_example_state)
   \<and> HIPSparseAdagrad_DoRunWithType2 (1 / 100000) \<lparr>dims = [0], data = []\<rparr>
       \<lparr>dims = [0, 2], data = []\<rparr> \<lparr>dims = [1], data = [1 / 10]\<rparr> Adagrad_example_state
     = (Success, Adagrad_example_state)
   \<and> RowWiseSparseAdagrad_DoRunWithType (1 / 100000) \<lparr>dims = [0], data = []\<rparr>
       \<lparr>dims = [0, 2], data = []\<rparr> \<lparr>dims = [1], data = [1 / 10]\<rparr> Adagrad_example_state
     = (Success, Adagrad_example_state)
   \<and> RMACRegions_RunOnDevice (\<lambda>x. x) 0 512 [] (\<lambda>_. 0) (2 / 5) 3
       \<lparr>dims = [0, 8, 4, 4], data = ([] :: real list)\<rparr>
       \<lparr>outputs = \<lparr>dims = [7], data = [1, 2, 3, 4, 5, 6, 7]\<rparr>, stream = [''earlier'']\<rparr>
     = (Success,
        \<lparr>outputs = \<lparr>dims = [7], data = [1, 2, 3, 4, 5, 6, 7]\<rparr>, stream = [''earlier'']\<rparr>)"
  using empty_input_returns_at_once [where indices = "\<lparr>dims = [0], data = []\<rparr>"
      and grad = "\<lparr>dims = [0, 2], data = []\<rparr>" and lr = "\<lparr>dims = [1], data = [1 / 10]\<rparr>"
      and epsilon = "1 / 100000" and st = Adagrad_example_state
      and indices' = "\<lparr>dims = [0], data = []\<rparr>"
      and grad' = "\<lparr>dims = [0, 2], data = []\<rparr>" and lr' = "\<lparr>dims = [1], data = [1 / 10]\<rparr>"
      and epsilon' = "1 / 100000" and st' = Adagrad_example_state
      and X = "\<lparr>dims = [0, 8, 4, 4], data = ([] :: real list)\<rparr>"
      and fl = "\<lambda>x. x" and key_init = 0 and block_dim = 512 and output_shared = "[]"
      and fresh = "\<lambda>_. 0" and overlap = "2 / 5" and scales = 3
      and st'' = "\<lparr>outputs = \<lparr>dims = [7], data = [1, 2, 3, 4, 5, 6, 7]\<rparr>,
                    stream = [''earlier'']\<rparr>"]
  by (simp add: tensor_size_def HIPSparseAdagrad_RunOnDevice_def size_from_dim_def ndim_def
        HIPSparseAdagrad_DoRunWithType_def)

subsection \<open>LayerNorm\<close>

lemma kernel_loop_inplace:
  "nat n \<le> length x \<Longrightarrow>
   HIP_1D_KERNEL_LOOP n (\<lambda>i x. x[i := g i (x ! i)]) x =
     map (\<lambda>i. g i (x ! i)) [0..<nat n] @ drop (nat n) x"
proof -
  have "m \<le> length x \<Longrightarrow>
      fold (\<lambda>i x. x[i := g i (x ! i)]) [0..<m] x = map (\<lambda>i. g i (x ! i)) [0..<m] @ drop m x"
    for m
  proof (induction m)
    case 0
    then show ?case by simp
  next
    case (Suc m)
    then have m: "m < length x" by simp
    then have "(map (\<lambda>i. g i (x ! i)) [0..<m] @ drop m x) ! m = x ! m"
      by (simp add: nth_append)
    moreover from m have "(map (\<lambda>i. g i (x ! i)) [0..<m] @ drop m x)[m := g m (x ! m)] =
        map (\<lambda>i. g i (x ! i)) [0..<m] @ g m (x ! m) # drop (Suc m) x"
      by (simp add: list_update_append Cons_nth_drop_Suc [symmetric])
    ultimately show ?case using Suc by simp
  qed
  then show "nat n \<le> length x \<Longrightarrow> ?thesis"
    by (simp add: HIP_1D_KERNEL_LOOP_def)
qed

lemma segment_sum:
  "sum_list (map f [i * n..<i * n + n]) = (\<Sum>j<n. f (i * n + j))"
proof -
  have "sum_list (map f [i * n..<i * n + n]) = sum f (set [i * n..<i * n + n])"
    by (rule sum.distinct_set_conv_list [symmetric]) simp
  also have "\<dots> = sum f {0 + i * n..<n + i * n}" by (simp add: add.commute)
  also have "\<dots> = (\<Sum>j\<in>{0..<n}. f (j + i * n))" by (rule sum.shift_bounds_nat_ivl)
  also have "\<dots> = (\<Sum>j<n. f (i * n + j))" by (simp add: add.commute lessThan_atLeast0)
  finally show ?thesis .
qed

lemma allocScratchAndReduce_rows:
  assumes "length out0 = L" "s < L"
  shows "length (allocScratchAndReduce f out0 (int L) (map (\<lambda>i. int R * int i) [0..<nat (int L + 1)]))
           = L"
    and "allocScratchAndReduce f out0 (int L) (map (\<lambda>i. int R * int i) [0..<nat (int L + 1)]) ! s
           = Some (\<Sum>j<R. f (s * R + j))"
proof -
  let ?segs = "map (\<lambda>i. int R * int i) [0..<nat (int L + 1)]"
  have n: "nat (int L + 1) = Suc L" by simp
  from assms(2) have b: "nat (?segs ! s) = s * R"
    by (simp add: n nth_append nat_mult_distrib del: upt_Suc)
  from assms(2) have "tl ?segs ! s = ?segs ! Suc s"
    by (simp add: n nth_tl del: upt_Suc)
  with assms(2) have e: "nat (tl ?segs ! s) = s * R + R"
    by (simp add: n nat_mult_distrib nat_add_distrib del: upt_Suc)
  from assms(1) show "length (allocScratchAndReduce f out0 (int L) ?segs) = L"
    by (simp add: allocScratchAndReduce_def DeviceSegmentedReduce_Sum_def)
  from assms(2) have "allocScratchAndReduce f out0 (int L) ?segs ! s =
      Some (sum_list (map f [nat (?segs ! s)..<nat (tl ?segs ! s)]))"
    by (simp add: allocScratchAndReduce_def DeviceSegmentedReduce_Sum_def nth_append
          del: upt_Suc)
  then show "allocScratchAndReduce f out0 (int L) ?segs ! s = Some (\<Sum>j<R. f (s * R + j))"
    by (simp only: b e segment_sum)
qed

lemma math_Scale_nth:
  "length x = L \<Longrightarrow> length (math_Scale (int L) alpha x x) = L"
  "i < L \<Longrightarrow> math_Scale (int L) alpha x y ! i = float_mul alpha (x ! i)"
  by (simp_all add: math_Scale_def nth_append)

lemma sqrtXMinusYSquaredKernel_nth:
  assumes "length x = L"
  shows "length (sqrtXMinusYSquaredKernel (int L) x y epsilon) = L"
    and "i < L \<Longrightarrow> sqrtXMinusYSquaredKernel (int L) x y epsilon ! i
           = float_sqrt (float_add (float_sub (x ! i) (float_mul (y ! i) (y ! i))) (Some epsilon))"
  using kernel_loop_inplace [of "int L" x
      "\<lambda>i v. float_sqrt (float_add (float_sub v (float_mul (y ! i) (y ! i))) (Some epsilon))"]
    assms
  by (simp_all add: sqrtXMinusYSquaredKernel_def nth_append)

lemma normalizeKernel_nth:
  assumes "length out0 = L * R"
  shows "length (normalizeKernel (int R) (int L * int R) x mu sigma out0) = L * R"
    and "i < L * R \<Longrightarrow> normalizeKernel (int R) (int L * int R) x mu sigma out0 ! i
           = float_div (float_sub (Some (x ! i)) (mu ! (i div R))) (sigma ! (i div R))"
proof -
  have nm: "nat (int L * int R) = L * R" by (simp add: nat_mult_distrib)
  from assms have "nat (int L * int R) \<le> length out0" by (simp add: nm)
  note k = kernel_loop_pointwise [OF this,
      of "\<lambda>i. float_div (float_sub (Some (x ! i)) (mu ! nat (int i sdiv int R)))
                 (sigma ! nat (int i sdiv int R))"]
  from k assms show "length (normalizeKernel (int R) (int L * int R) x mu sigma out0) = L * R"
    by (simp add: normalizeKernel_def nm)
  from k assms show "i < L * R \<Longrightarrow> normalizeKernel (int R) (int L * int R) x mu sigma out0 ! i
           = float_div (float_sub (Some (x ! i)) (mu ! (i div R))) (sigma ! (i div R))"
    by (simp add: normalizeKernel_def nm nth_append sdiv_nat)
qed

lemma variance_nonneg:
  fixes f :: "nat \<Rightarrow> real"
  assumes "0 < R"
  shows "0 \<le> 1 / real R * (\<Sum>j<R. (f j)\<^sup>2) - (1 / real R * (\<Sum>j<R. f j))\<^sup>2"
proof -
  define m where "m = 1 / real R * (\<Sum>j<R. f j)"
  from assms have s: "(\<Sum>j<R. f j) = real R * m" by (simp add: m_def)
  have "(\<Sum>j<R. (f j - m)\<^sup>2) = (\<Sum>j<R. (f j)\<^sup>2 - 2 * m * f j + m\<^sup>2)"
    by (simp add: power2_diff algebra_simps)
  also have "\<dots> = (\<Sum>j<R. (f j)\<^sup>2) - 2 * m * (\<Sum>j<R. f j) + real R * m\<^sup>2"
    by (simp add: sum.distrib sum_subtractf sum_distrib_left)
  also have "\<dots> = (\<Sum>j<R. (f j)\<^sup>2) - real R * m\<^sup>2"
    by (simp add: s power2_eq_square algebra_simps)
  finally have "(\<Sum>j<R. (f j)\<^sup>2) - real R * m\<^sup>2 = (\<Sum>j<R. (f j - m)\<^sup>2)" by simp
  moreover have "0 \<le> (\<Sum>j<R. (f j - m)\<^sup>2)" by (rule sum_nonneg) simp
  ultimately have "0 \<le> (\<Sum>j<R. (f j)\<^sup>2) - real R * m\<^sup>2" by simp
  then have "0 \<le> 1 / real R * ((\<Sum>j<R. (f j)\<^sup>2) - real R * m\<^sup>2)"
    using assms by simp
  also have "1 / real R * ((\<Sum>j<R. (f j)\<^sup>2) - real R * m\<^sup>2)
      = 1 / real R * (\<Sum>j<R. (f j)\<^sup>2) - m\<^sup>2"
    using assms by (simp add: algebra_simps)
  finally show ?thesis by (simp add: m_def)
qed

lemma LayerNorm_rows:
  assumes rank: "2 \<le> ndim input" and ax: "canonical_axis_index axis input = Some ca"
    and wf: "wf_tensor input"
    and R: "0 < size_from_dim ca input" "size_from_dim ca input < 2 ^ 31"
    and fits: "tensor_size input < 2 ^ 31"
    and eps: "0 < epsilon"
  shows "\<exists>output mean stdev.
      fst (LayerNorm_DoRunWithType axis epsilon fresh input st) = Success
    \<and> outputs (snd (LayerNorm_DoRunWithType axis epsilon fresh input st)) = (output, mean, stdev)
    \<and> dims output = dims input
    \<and> dims mean = take ca (dims input) @ [1] \<and> dims stdev = take ca (dims input) @ [1]
    \<and> wf_tensor output \<and> wf_tensor mean \<and> wf_tensor stdev
    \<and> (\<forall>i<size_to_dim ca input. \<exists>m sd.
          data mean ! i = Some m
        \<and> m = 1 / real (size_from_dim ca input)
             * (\<Sum>j<size_from_dim ca input. data input ! (i * size_from_dim ca input + j))
        \<and> data stdev ! i = Some sd
        \<and> sd = sqrt (1 / real (size_from_dim ca input)
             * (\<Sum>j<size_from_dim ca input. (data input ! (i * size_from_dim ca input + j))\<^sup>2)
             - m\<^sup>2 + epsilon)
        \<and> (\<forall>j<size_from_dim ca input.
              data output ! (i * size_from_dim ca input + j) =
              Some ((data input ! (i * size_from_dim ca input + j) - m) / sd)))"
proof -
  define L where "L = size_to_dim ca input"
  define R where "R = size_from_dim ca input"
  define X where "X = data input"
  define sd where "sd = take ca (dims input) @ [1]"
  define mu where "mu i = 1 / real R * (\<Sum>j<R. X ! (i * R + j))" for i
  define sg where "sg i = sqrt (1 / real R * (\<Sum>j<R. (X ! (i * R + j))\<^sup>2) - (mu i)\<^sup>2 + epsilon)"
    for i
  have LR: "L * R = tensor_size input" by (simp add: L_def R_def size_to_from_dim)
  from R have Rpos: "0 < R" and Rfit: "int R < 2 ^ 31"
    by (simp_all add: R_def)
  from Rpos have "L \<le> L * R" by simp
  with fits LR have "L < 2 ^ 31" by simp
  then have "int L < 2 ^ 31" by (metis of_nat_less_iff of_nat_numeral of_nat_power)
  with Rfit have narrow: "to_int32 (int L) = int L" "to_int32 (int R) = int R"
    by (simp_all add: to_int32_id)
  have size_sd: "prod_list sd = L" by (simp add: sd_def L_def size_to_dim_def)
  from wf LR have lenX: "length X = L * R" by (simp add: X_def wf_tensor_def)
  define alpha where "alpha = float_div (Some 1) (Some (real R))"
  from Rpos have alpha: "alpha = Some (1 / real R)" by (simp add: alpha_def float_ops_Some)
  define segs where "segs = map (\<lambda>i. int R * int i) [0..<nat (int L + 1)]"
  define out0 where "out0 = map fresh [0..<L * R]"
  define s0 where "s0 = map fresh [0..<L]"
  define mean_data where "mean_data = (if R = 1 then map Some X
     else math_Scale (int L) alpha (allocScratchAndReduce (\<lambda>k. X ! k) s0 (int L) segs)
            (allocScratchAndReduce (\<lambda>k. X ! k) s0 (int L) segs))"
  define sq where "sq = allocScratchAndReduce (\<lambda>k. SqrTransform (X ! k)) s0 (int L) segs"
  define stdev_data where "stdev_data =
    (if R = 1 then math_Set (int L) (float_sqrt (Some epsilon)) s0
     else sqrtXMinusYSquaredKernel (int L) (math_Scale (int L) alpha sq sq) mean_data epsilon)"
  define output_data where
    "output_data = normalizeKernel (int R) (int L * int R) X mean_data stdev_data out0"
  let ?run = "LayerNorm_DoRunWithType axis epsilon fresh input st"
  have run: "fst ?run = Success \<and> outputs (snd ?run) =
      (\<lparr>dims = dims input, data = output_data\<rparr>, \<lparr>dims = sd, data = mean_data\<rparr>,
       \<lparr>dims = sd, data = stdev_data\<rparr>)"
    using rank ax narrow size_sd
    unfolding output_data_def stdev_data_def mean_data_def sq_def segs_def out0_def s0_def
      alpha_def L_def R_def X_def sd_def LR [unfolded L_def R_def]
    by (simp add: LayerNorm_DoRunWithType_def Let_def Resize_def launch_def tensor_size_def)
  have len_s0: "length s0 = L" by (simp add: s0_def)
  have len_red: "length (allocScratchAndReduce f s0 (int L) segs) = L" for f
    by (simp add: allocScratchAndReduce_def DeviceSegmentedReduce_Sum_def len_s0)
  have len_mean: "length mean_data = L"
    by (cases "R = 1") (simp_all add: mean_data_def lenX math_Scale_def len_red)
  have len_stdev: "length stdev_data = L"
    by (simp add: stdev_data_def math_Set_def len_s0 sqrtXMinusYSquaredKernel_nth(1)
          math_Scale_def sq_def len_red)
  have len_out: "length output_data = L * R"
    unfolding output_data_def by (rule normalizeKernel_nth(1)) (simp add: out0_def)
  have mean_nth: "mean_data ! i = Some (mu i)" if i: "i < L" for i
  proof (cases "R = 1")
    case True
    with i lenX show ?thesis by (simp add: mean_data_def mu_def)
  next
    case False
    with i allocScratchAndReduce_rows(2) [OF len_s0 i, of "\<lambda>k. X ! k" R] show ?thesis
      by (simp add: mean_data_def segs_def math_Scale_nth(2) alpha float_ops_Some mu_def)
  qed
  have radicand: "0 < 1 / real R * (\<Sum>j<R. (X ! (i * R + j))\<^sup>2) - (mu i)\<^sup>2 + epsilon" for i
    using variance_nonneg [OF Rpos, of "\<lambda>j. X ! (i * R + j)"] eps by (simp add: mu_def)
  have sg_pos: "0 < sg i" for i
    unfolding sg_def using radicand [of i] by simp
  have stdev_nth: "stdev_data ! i = Some (sg i)" if i: "i < L" for i
  proof (cases "R = 1")
    case True
    with i eps show ?thesis
      by (simp add: stdev_data_def math_Set_def nth_append float_ops_Some sg_def mu_def
            power2_eq_square)
  next
    case False
    have "length (math_Scale (int L) alpha sq sq) = L"
      by (simp add: math_Scale_def sq_def len_red)
    from sqrtXMinusYSquaredKernel_nth(2) [OF this i, of mean_data epsilon] False i
      allocScratchAndReduce_rows(2) [OF len_s0 i, of "\<lambda>k. SqrTransform (X ! k)" R]
      mean_nth [OF i] radicand [of i]
    show ?thesis
      by (simp add: stdev_data_def math_Scale_nth(2) sq_def segs_def SqrTransform_def
            power2_eq_square alpha float_ops_Some sg_def)
  qed
  have out_nth: "output_data ! (i * R + j) = Some ((X ! (i * R + j) - mu i) / sg i)"
    if i: "i < L" and j: "j < R" for i j
  proof -
    from i have "Suc i \<le> L" by simp
    then have "Suc i * R \<le> L * R" by (rule mult_le_mono1)
    with j have "i * R + j < L * R" by simp
    moreover have "length out0 = L * R" by (simp add: out0_def)
    ultimately show ?thesis
      using j mean_nth [OF i] stdev_nth [OF i] sg_pos [of i]
      by (simp add: output_data_def normalizeKernel_nth(2) float_ops_Some)
  qed
  have cells: "\<forall>i<L. \<exists>m s.
          mean_data ! i = Some m
        \<and> m = 1 / real R * (\<Sum>j<R. X ! (i * R + j))
        \<and> stdev_data ! i = Some s
        \<and> s = sqrt (1 / real R * (\<Sum>j<R. (X ! (i * R + j))\<^sup>2) - m\<^sup>2 + epsilon)
        \<and> (\<forall>j<R. output_data ! (i * R + j) = Some ((X ! (i * R + j) - m) / s))"
  proof (intro allI impI)
    fix i assume i: "i < L"
    show "\<exists>m s.
          mean_data ! i = Some m
        \<and> m = 1 / real R * (\<Sum>j<R. X ! (i * R + j))
        \<and> stdev_data ! i = Some s
        \<and> s = sqrt (1 / real R * (\<Sum>j<R. (X ! (i * R + j))\<^sup>2) - m\<^sup>2 + epsilon)
        \<and> (\<forall>j<R. output_data ! (i * R + j) = Some ((X ! (i * R + j) - m) / s))"
      using mean_nth [OF i] stdev_nth [OF i] out_nth [OF i]
      by (intro exI [of _ "mu i"] exI [of _ "sg i"]) (simp add: mu_def sg_def)
  qed
  have all: "fst ?run = Success
    \<and> outputs (snd ?run) = (\<lparr>dims = dims input, data = output_data\<rparr>,
        \<lparr>dims = sd, data = mean_data\<rparr>, \<lparr>dims = sd, data = stdev_data\<rparr>)
    \<and> dims \<lparr>dims = dims input, data = output_data\<rparr> = dims input
    \<and> dims \<lparr>dims = sd, data = mean_data\<rparr> = take ca (dims input) @ [1]
    \<and> dims \<lparr>dims = sd, data = stdev_data\<rparr> = take ca (dims input) @ [1]
    \<and> wf_tensor \<lparr>dims = dims input, data = output_data\<rparr>
    \<and> wf_tensor \<lparr>dims = sd, data = mean_data\<rparr> \<and> wf_tensor \<lparr>dims = sd, data = stdev_data\<rparr>
    \<and> (\<forall>i<L. \<exists>m s.
          data \<lparr>dims = sd, data = mean_data\<rparr> ! i = Some m
        \<and> m = 1 / real R * (\<Sum>j<R. X ! (i * R + j))
        \<and> data \<lparr>dims = sd, data = stdev_data\<rparr> ! i = Some s
        \<and> s = sqrt (1 / real R * (\<Sum>j<R. (X ! (i * R + j))\<^sup>2) - m\<^sup>2 + epsilon)
        \<and> (\<forall>j<R.
              data \<lparr>dims = dims input, data = output_data\<rparr> ! (i * R + j) =
              Some ((X ! (i * R + j) - m) / s)))"
    using run cells
    by (simp add: wf_tensor_def tensor_size_def len_out len_mean len_stdev
          size_sd LR [unfolded tensor_size_def]) (simp add: sd_def)
  show ?thesis
    unfolding L_def [symmetric] R_def [symmetric] X_def [symmetric]
    by (rule exI [of _ "\<lparr>dims = dims input, data = output_data\<rparr>"],
        rule exI [of _ "\<lparr>dims = sd, data = mean_data\<rparr>"],
        rule exI [of _ "\<lparr>dims = sd, data = stdev_data\<rparr>"], rule all)
qed

lemma LayerNorm_zero_deviation:
  "outputs (snd (LayerNorm_DoRunWithType 1 0 (\<lambda>_. None) \<lparr>dims = [2, 2], data = [2, 2, 1, 3]\<rparr>
      LayerNorm_example_state)) =
    (\<lparr>dims = [2, 2], data = [None, None, Some (- 1), Some 1]\<rparr>,
     \<lparr>dims = [2, 1], data = [Some 2, Some 2]\<rparr>,
     \<lparr>dims = [2, 1], data = [Some 0, Some 1]\<rparr>)"
  by (simp add: LayerNorm_DoRunWithType_def ndim_def canonical_axis_index_def size_to_dim_def
        size_from_dim_def to_int32_def Resize_def launch_def Let_def
        allocScratchAndReduce_def DeviceSegmentedReduce_Sum_def math_Scale_def
        sqrtXMinusYSquaredKernel_def normalizeKernel_def HIP_1D_KERNEL_LOOP_def
        SqrTransform_def float_add_def float_sub_def float_mul_def float_div_def
        float_sqrt_def signed_divide_int_def upt_rec [of _ "numeral _"] upt_rec [of _ "Suc _"])

text \<open>
  Claim C1. For an input of rank at least 2, split at the canonical axis into \<open>left\<close>
  rows of \<open>right\<close> elements, the operator succeeds; the mean of row \<open>i\<close> is
  \<open>(1 / right) * \<Sum>j X[i, j]\<close>, its standard deviation is
  \<open>sqrt((1 / right) * \<Sum>j X[i, j]^2 - mean[i]^2 + epsilon)\<close>, and the output is
  \<open>(X[i, j] - mean[i]) / stdev[i]\<close>. Here \<open>epsilon\<close> is positive, which keeps the
  standard deviation from zero, a row has an element, and the sizes fit the operator's
  \<open>int\<close> variables. An input of rank below 2 fails the check at entry.
\<close>

theorem LayerNorm_mean_stdev_output:
  "(2 \<le> ndim input \<and> canonical_axis_index axis input = Some ca \<and> wf_tensor input
      \<and> 0 < size_from_dim ca input \<and> size_from_dim ca input < 2 ^ 31
      \<and> tensor_size input < 2 ^ 31 \<and> 0 < epsilon \<longrightarrow>
    (\<exists>output mean stdev.
      fst (LayerNorm_DoRunWithType axis epsilon fresh input st) = Success
    \<and> outputs (snd (LayerNorm_DoRunWithType axis epsilon fresh input st)) = (output, mean, stdev)
    \<and> dims output = dims input
    \<and> dims mean = take ca (dims input) @ [1] \<and> dims stdev = take ca (dims input) @ [1]
    \<and> wf_tensor output \<and> wf_tensor mean \<and> wf_tensor stdev
    \<and> (\<forall>i<size_to_dim ca input. \<exists>m sd.
          data mean ! i = Some m
        \<and> m = 1 / real (size_from_dim ca input)
             * (\<Sum>j<size_from_dim ca input. data input ! (i * size_from_dim ca input + j))
        \<and> data stdev ! i = Some sd
        \<and> sd = sqrt (1 / real (size_from_dim ca input)
             * (\<Sum>j<size_from_dim ca input. (data input ! (i * size_from_dim ca input + j))\<^sup>2)
             - m\<^sup>2 + epsilon)
        \<and> (\<forall>j<size_from_dim ca input.
              data output ! (i * size_from_dim ca input + j) =
              Some ((data input ! (i * size_from_dim ca input + j) - m) / sd)))))
   \<and> (ndim input' < 2 \<longrightarrow>
        LayerNorm_DoRunWithType axis' epsilon' fresh' input' st' = (EnforceNotMet, st'))"
proof (intro conjI impI)
  assume "2 \<le> ndim input \<and> canonical_axis_index axis input = Some ca \<and> wf_tensor input
      \<and> 0 < size_from_dim ca input \<and> size_from_dim ca input < 2 ^ 31
      \<and> tensor_size input < 2 ^ 31 \<and> 0 < epsilon"
  then show "\<exists>output mean stdev.
      fst (LayerNorm_DoRunWithType axis epsilon fresh input st) = Success
    \<and> outputs (snd (LayerNorm_DoRunWithType axis epsilon fresh input st)) = (output, mean, stdev)
    \<and> dims output = dims input
    \<and> dims mean = take ca (dims input) @ [1] \<and> dims stdev = take ca (dims input) @ [1]
    \<and> wf_tensor output \<and> wf_tensor mean \<and> wf_tensor stdev
    \<and> (\<forall>i<size_to_dim ca input. \<exists>m sd.
          data mean ! i = Some m
        \<and> m = 1 / real (size_from_dim ca input)
             * (\<Sum>j<size_from_dim ca input. data input ! (i * size_from_dim ca input + j))
        \<and> data stdev ! i = Some sd
        \<and> sd = sqrt (1 / real (size_from_dim ca input)
             * (\<Sum>j<size_from_dim ca input. (data input ! (i * size_from_dim ca input + j))\<^sup>2)
             - m\<^sup>2 + epsilon)
        \<and> (\<forall>j<size_from_dim ca input.
              data output ! (i * size_from_dim ca input + j) =
              Some ((data input ! (i * size_from_dim ca input + j) - m) / sd)))"
    by (intro LayerNorm_rows) simp_all
next
  assume "ndim input' < 2"
  then show "LayerNorm_DoRunWithType axis' epsilon' fresh' input' st' = (EnforceNotMet, st')"
    by (simp add: LayerNorm_DoRunWithType_def)
qed

theorem LayerNorm_mean_stdev_output_witness:
  "(\<exists>output mean stdev.
      fst (LayerNorm_DoRunWithType 1 3 (\<lambda>_. None) LayerNorm_example_input
             LayerNorm_example_state) = Success
    \<and> outputs (snd (LayerNorm_DoRunWithType 1 3 (\<lambda>_. None) LayerNorm_example_input
          LayerNorm_example_state)) = (output, mean, stdev)
    \<and> dims output = [2, 2] \<and> dims mean = [2, 1] \<and> dims stdev = [2, 1]
    \<and> data mean ! 0 = Some 2 \<and> data stdev ! 0 = Some 2
    \<and> data output ! 0 = Some (- 1 / 2) \<and> data output ! 1 = Some (1 / 2))
   \<and> LayerNorm_DoRunWithType 1 3 (\<lambda>_. None) \<lparr>dims = [4], data = [1, 3, 5, 5]\<rparr>
        LayerNorm_example_state = (EnforceNotMet, LayerNorm_example_state)"
proof -
  have sq: "sqrt 4 = 2" using real_sqrt_abs [of 2] by simp
  note t = LayerNorm_mean_stdev_output [where input = LayerNorm_example_input and axis = 1
      and ca = 1 and epsilon = 3 and fresh = "\<lambda>_. None" and st = LayerNorm_example_state
      and input' = "\<lparr>dims = [4], data = [1, 3, 5, 5]\<rparr>" and axis' = 1 and epsilon' = 3
      and fresh' = "\<lambda>_. None" and st' = LayerNorm_example_state]
  from t have a: "\<exists>output mean stdev.
      fst (LayerNorm_DoRunWithType 1 3 (\<lambda>_. None) LayerNorm_example_input
             LayerNorm_example_state) = Success
    \<and> outputs (snd (LayerNorm_DoRunWithType 1 3 (\<lambda>_. None) LayerNorm_example_input
          LayerNorm_example_state)) = (output, mean, stdev)
    \<and> dims output = [2, 2] \<and> dims mean = [2, 1] \<and> dims stdev = [2, 1]
    \<and> (\<forall>i<2. \<exists>m sd.
          data mean ! i = Some m
        \<and> m = 1 / 2 * (\<Sum>j<2. [1, 3, 5, 5] ! (i * 2 + j))
        \<and> data stdev ! i = Some sd
        \<and> sd = sqrt (1 / 2 * (\<Sum>j<2. ([1, 3, 5, 5] ! (i * 2 + j))\<^sup>2) - m\<^sup>2 + 3)
        \<and> (\<forall>j<2. data output ! (i * 2 + j) = Some (([1, 3, 5, 5] ! (i * 2 + j) - m) / sd)))"
    by (simp add: ndim_def canonical_axis_index_def wf_tensor_def tensor_size_def
          size_from_dim_def size_to_dim_def) blast
  then obtain outp mn sdv where
    r: "fst (LayerNorm_DoRunWithType 1 3 (\<lambda>_. None) LayerNorm_example_input
          LayerNorm_example_state) = Success"
      "outputs (snd (LayerNorm_DoRunWithType 1 3 (\<lambda>_. None) LayerNorm_example_input
          LayerNorm_example_state)) = (outp, mn, sdv)"
      "dims outp = [2, 2]" "dims mn = [2, 1]" "dims sdv = [2, 1]"
    and c: "\<And>i. i < 2 \<Longrightarrow> \<exists>m sd.
          data mn ! i = Some m
        \<and> m = 1 / 2 * (\<Sum>j<2. [1, 3, 5, 5] ! (i * 2 + j))
        \<and> data sdv ! i = Some sd
        \<and> sd = sqrt (1 / 2 * (\<Sum>j<2. ([1, 3, 5, 5] ! (i * 2 + j))\<^sup>2) - m\<^sup>2 + 3)
        \<and> (\<forall>j<2. data outp ! (i * 2 + j) = Some (([1, 3, 5, 5] ! (i * 2 + j) - m) / sd))"
    by blast
  from c [of 0] obtain m sd where
    m: "data mn ! 0 = Some m" "m = 1 / 2 * (\<Sum>j<2. [1, 3, 5, 5] ! (0 * 2 + j))"
    and s: "data sdv ! 0 = Some sd"
      "sd = sqrt (1 / 2 * (\<Sum>j<2. ([1, 3, 5, 5] ! (0 * 2 + j))\<^sup>2) - m\<^sup>2 + 3)"
    and o: "\<And>j. j < 2 \<Longrightarrow> data outp ! (0 * 2 + j) = Some (([1, 3, 5, 5] ! (0 * 2 + j) - m) / sd)"
    by auto
  from m(2) have m2: "m = 2" by (simp add: lessThan_Suc numeral_2_eq_2)
  from s(2) m2 have s2: "sd = 2" by (simp add: lessThan_Suc numeral_2_eq_2 sq)
  from o [of 0] o [of 1] m2 s2
  have o2: "data outp ! 0 = Some (- 1 / 2)" "data outp ! 1 = Some (1 / 2)" by simp_all
  from t have b: "LayerNorm_DoRunWithType 1 3 (\<lambda>_. None) \<lparr>dims = [4], data = [1, 3, 5, 5]\<rparr>
        LayerNorm_example_state = (EnforceNotMet, LayerNorm_example_state)"
    by (simp add: ndim_def)
  from r m(1) s(1) m2 s2 o2 b show ?thesis by blast
qed

end
